theory Spec2Isabelle
  imports Complex_Main "HOL-Library.Word"
begin

section \<open>Vectors and matrices of the mathematics library\<close>

text \<open>
  The scene code computes with \<^verbatim>\<open>glm::vec2/vec3/vec4\<close> and \<^verbatim>\<open>glm::mat4\<close>.
  A \<^verbatim>\<open>float\<close> is modelled as a real number, so rounding is outside this model.
  A \<^verbatim>\<open>mat4\<close> is stored by columns, as the library stores it.
\<close>

type_synonym vec2 = "real \<times> real"
type_synonym vec3 = "real \<times> real \<times> real"
type_synonym vec4 = "real \<times> real \<times> real \<times> real"
type_synonym mat4 = "vec4 \<times> vec4 \<times> vec4 \<times> vec4"

definition vec4_scale :: "real \<Rightarrow> vec4 \<Rightarrow> vec4" where
  "vec4_scale k v = (case v of (x, y, z, w) \<Rightarrow> (k * x, k * y, k * z, k * w))"

definition vec4_add :: "vec4 \<Rightarrow> vec4 \<Rightarrow> vec4" where
  "vec4_add a b =
     (case a of (ax, ay, az, aw) \<Rightarrow> case b of (bx, by, bz, bw) \<Rightarrow>
        (ax + bx, ay + by, az + bz, aw + bw))"

text \<open>\<^verbatim>\<open>mat4 * vec4\<close>: the combination of the columns weighted by the vector's entries.\<close>

definition mat4_mul_vec4 :: "mat4 \<Rightarrow> vec4 \<Rightarrow> vec4" where
  "mat4_mul_vec4 m v =
     (case m of (c0, c1, c2, c3) \<Rightarrow> case v of (x, y, z, w) \<Rightarrow>
        vec4_add (vec4_add (vec4_scale x c0) (vec4_scale y c1))
                 (vec4_add (vec4_scale z c2) (vec4_scale w c3)))"

text \<open>\<^verbatim>\<open>mat4 * mat4\<close>: column \<open>i\<close> of the product is the left matrix applied to column
  \<open>i\<close> of the right one.\<close>

definition mat4_mul :: "mat4 \<Rightarrow> mat4 \<Rightarrow> mat4" where
  "mat4_mul m1 m2 =
     (case m2 of (b0, b1, b2, b3) \<Rightarrow>
        (mat4_mul_vec4 m1 b0, mat4_mul_vec4 m1 b1, mat4_mul_vec4 m1 b2, mat4_mul_vec4 m1 b3))"

definition glm_radians :: "real \<Rightarrow> real" where
  "glm_radians degrees = degrees * (pi / 180)"

definition glm_scale :: "vec3 \<Rightarrow> mat4" where
  "glm_scale v =
     (case v of (x, y, z) \<Rightarrow>
        ((x, 0, 0, 0), (0, y, 0, 0), (0, 0, z, 0), (0, 0, 0, 1)))"

definition glm_translate :: "vec3 \<Rightarrow> mat4" where
  "glm_translate v =
     (case v of (x, y, z) \<Rightarrow>
        ((1, 0, 0, 0), (0, 1, 0, 0), (0, 0, 1, 0), (x, y, z, 1)))"

definition glm_normalize :: "vec3 \<Rightarrow> vec3" where
  "glm_normalize v =
     (case v of (x, y, z) \<Rightarrow>
        (let l = sqrt (x * x + y * y + z * z) in (x / l, y / l, z / l)))"

text \<open>\<^verbatim>\<open>glm::rotate(angle, axis)\<close>: the rotation about the normalised axis, built from the
  cosine, the sine and \<open>(1 - cos) * axis\<close> entry by entry as the library does.\<close>

definition glm_rotate :: "real \<Rightarrow> vec3 \<Rightarrow> mat4" where
  "glm_rotate angle v =
     (let c = cos angle; s = sin angle in
      case glm_normalize v of (a0, a1, a2) \<Rightarrow>
        (let t0 = (1 - c) * a0; t1 = (1 - c) * a1; t2 = (1 - c) * a2 in
         ((c + t0 * a0, t0 * a1 + s * a2, t0 * a2 - s * a1, 0),
          (t1 * a0 - s * a2, c + t1 * a1, t1 * a2 + s * a0, 0),
          (t2 * a0 + s * a1, t2 * a1 - s * a0, c + t2 * a2, 0),
          (0, 0, 0, 1))))"

section \<open>Collaborators: shader uniforms, meshes, image decoder, texture units\<close>

text \<open>
  The shader manager is the only channel to the rendering backend. It is modelled by
  the list of uniform pushes it has received, oldest first; a null pointer to it is
  \<open>None\<close>. Calling a method through a null pointer is the error
  \<open>NullPointerDereference\<close>, and indexing the texture array outside its bounds is
  \<open>ArrayIndexOutOfBounds\<close>.
\<close>

datatype error = NullPointerDereference | ArrayIndexOutOfBounds

datatype uniform_value =
    BoolValue bool
  | IntValue int
  | FloatValue real
  | Vec2Value vec2
  | Vec3Value vec3
  | Vec4Value vec4
  | Mat4Value mat4
  | Sampler2DValue int

type_synonym ShaderManager = "(string \<times> uniform_value) list"

datatype mesh =
    PlaneMesh | CylinderMesh | SphereMesh | ConeMesh | BoxMesh | TaperedCylinderMesh | TorusMesh

text \<open>The mesh library, by the load and draw requests it has received, oldest first.\<close>

record ShapeMeshes =
  loaded :: "mesh list"
  drawn :: "mesh list"

text \<open>What \<^verbatim>\<open>stbi_load\<close> reports of a decoded image; the pixels play no part.\<close>

record stbi_image =
  width :: int
  height :: int
  colorChannels :: int

text \<open>
  The texture state of the graphics API. A texture name is a \<^verbatim>\<open>GLuint\<close>, an unsigned
  32-bit number. Names are handed out in increasing order (\<open>gl_lastTexture\<close> is the last
  one handed out, and the next is one more, in 32-bit arithmetic), one texture unit is
  active, and each unit has a 2D texture bound to it (0 for none). Units are counted
  from \<^verbatim>\<open>GL_TEXTURE0\<close>. Texture parameters, pixels and mipmaps are not modelled.
\<close>

type_synonym GLuint = "32 word"

record GLState =
  gl_lastTexture :: GLuint
  gl_activeTexture :: int
  gl_binding2D :: "int \<Rightarrow> GLuint"

definition glGenTextures :: "GLState \<Rightarrow> GLuint \<times> GLState" where
  "glGenTextures g = (gl_lastTexture g + 1, g\<lparr>gl_lastTexture := gl_lastTexture g + 1\<rparr>)"

definition glActiveTexture :: "int \<Rightarrow> GLState \<Rightarrow> GLState" where
  "glActiveTexture unit g = g\<lparr>gl_activeTexture := unit\<rparr>"

definition glBindTexture :: "GLuint \<Rightarrow> GLState \<Rightarrow> GLState" where
  "glBindTexture texture g = g\<lparr>gl_binding2D := (gl_binding2D g)(gl_activeTexture g := texture)\<rparr>"

section \<open>The scene manager\<close>

text \<open>A registry entry. The handle is the \<^verbatim>\<open>GLuint\<close> that \<^verbatim>\<open>glGenTextures\<close> wrote.
  The tag field of a material is named \<open>material_tag\<close> to keep the two apart.\<close>

record TEXTURE_INFO =
  ID :: GLuint
  tag :: string

record OBJECT_MATERIAL =
  diffuseColor :: vec3
  specularColor :: vec3
  shininess :: real
  material_tag :: string

text \<open>
  The members of \<^verbatim>\<open>SceneManager\<close>, and the graphics state its methods act on.
  \<open>m_textureIDs\<close> is the fixed-size array (its length is the declared capacity) and
  \<open>m_loadedTextures\<close> the number of entries in use.
\<close>

record SceneManager =
  m_pShaderManager :: "ShaderManager option"
  m_basicMeshes :: ShapeMeshes
  m_textureIDs :: "TEXTURE_INFO list"
  m_loadedTextures :: int
  m_objectMaterials :: "OBJECT_MATERIAL list"
  gl :: GLState

text \<open>A call \<^verbatim>\<open>m_pShaderManager->setXValue(name, v)\<close>.\<close>

definition shader_set :: "string \<Rightarrow> uniform_value \<Rightarrow> SceneManager \<Rightarrow> error + SceneManager" where
  "shader_set name v s =
     (case m_pShaderManager s of
        None \<Rightarrow> Inl NullPointerDereference
      | Some pushes \<Rightarrow> Inr (s\<lparr>m_pShaderManager := Some (pushes @ [(name, v)])\<rparr>))"

text \<open>Statements run one after the other; the first error ends the run.\<close>

fun do_all :: "('s \<Rightarrow> error + 's) list \<Rightarrow> 's \<Rightarrow> error + 's" where
  "do_all [] s = Inr s"
| "do_all (f # fs) s = (case f s of Inl e \<Rightarrow> Inl e | Inr s' \<Rightarrow> do_all fs s')"

subsection \<open>Texture registry\<close>

definition CreateGLTexture ::
  "(string \<Rightarrow> stbi_image option) \<Rightarrow> string \<Rightarrow> string \<Rightarrow> SceneManager
     \<Rightarrow> error + (bool \<times> SceneManager)" where
  "CreateGLTexture stbi_load filename t s =
     (case stbi_load filename of
        Some img \<Rightarrow>
          (case glGenTextures (gl s) of (textureID, g1) \<Rightarrow>
             (let g2 = glBindTexture textureID g1 in
              if colorChannels img = 3 \<or> colorChannels img = 4 then
                (let g3 = glBindTexture 0 g2 in
                 if 0 \<le> m_loadedTextures s \<and> m_loadedTextures s < int (length (m_textureIDs s))
                 then Inr (True,
                   s\<lparr>gl := g3,
                     m_textureIDs := (m_textureIDs s)
                       [nat (m_loadedTextures s) := \<lparr>ID = textureID, tag = t\<rparr>],
                     m_loadedTextures := m_loadedTextures s + 1\<rparr>)
                 else Inl ArrayIndexOutOfBounds)
              else Inr (False, s\<lparr>gl := g2\<rparr>)))
      | None \<Rightarrow> Inr (False, s))"

function BindGLTextures_loop ::
  "TEXTURE_INFO list \<Rightarrow> int \<Rightarrow> int \<Rightarrow> GLState \<Rightarrow> error + GLState" where
  "BindGLTextures_loop arr n i g =
     (if i < n then
        (if 0 \<le> i \<and> i < int (length arr)
         then BindGLTextures_loop arr n (i + 1)
                (glBindTexture (ID (arr ! nat i)) (glActiveTexture i g))
         else Inl ArrayIndexOutOfBounds)
      else Inr g)"
  by pat_completeness auto
termination
  by (relation "measure (\<lambda>(arr, n, i, g). nat (n - i))") auto

definition BindGLTextures :: "SceneManager \<Rightarrow> error + SceneManager" where
  "BindGLTextures s =
     (case BindGLTextures_loop (m_textureIDs s) (m_loadedTextures s) 0 (gl s) of
        Inl e \<Rightarrow> Inl e
      | Inr g \<Rightarrow> Inr (s\<lparr>gl := g\<rparr>))"

text \<open>The lookup loops carry the source's three variables: the result, the index and
  the found flag. \<^verbatim>\<open>FindTextureID\<close> assigns the unsigned 32-bit handle to an \<^verbatim>\<open>int\<close>:
  the same 32 bits read as a signed number (\<open>sint\<close>), so a handle of \<open>2^31\<close> or more
  comes back negative.\<close>

function FindTextureID_loop ::
  "TEXTURE_INFO list \<Rightarrow> int \<Rightarrow> string \<Rightarrow> int \<Rightarrow> int \<Rightarrow> bool \<Rightarrow> error + int" where
  "FindTextureID_loop arr n t textureID index bFound =
     (if index < n \<and> bFound = False then
        (if 0 \<le> index \<and> index < int (length arr) then
           (if tag (arr ! nat index) = t
            then FindTextureID_loop arr n t (sint (ID (arr ! nat index))) index True
            else FindTextureID_loop arr n t textureID (index + 1) bFound)
         else Inl ArrayIndexOutOfBounds)
      else Inr textureID)"
  by pat_completeness auto
termination
  by (relation "measure (\<lambda>(arr, n, t, textureID, index, bFound).
        if bFound then 0 else 1 + nat (n - index))") auto

definition FindTextureID :: "SceneManager \<Rightarrow> string \<Rightarrow> error + int" where
  "FindTextureID s t = FindTextureID_loop (m_textureIDs s) (m_loadedTextures s) t (- 1) 0 False"

function FindTextureSlot_loop ::
  "TEXTURE_INFO list \<Rightarrow> int \<Rightarrow> string \<Rightarrow> int \<Rightarrow> int \<Rightarrow> bool \<Rightarrow> error + int" where
  "FindTextureSlot_loop arr n t textureSlot index bFound =
     (if index < n \<and> bFound = False then
        (if 0 \<le> index \<and> index < int (length arr) then
           (if tag (arr ! nat index) = t
            then FindTextureSlot_loop arr n t index index True
            else FindTextureSlot_loop arr n t textureSlot (index + 1) bFound)
         else Inl ArrayIndexOutOfBounds)
      else Inr textureSlot)"
  by pat_completeness auto
termination
  by (relation "measure (\<lambda>(arr, n, t, textureSlot, index, bFound).
        if bFound then 0 else 1 + nat (n - index))") auto

definition FindTextureSlot :: "SceneManager \<Rightarrow> string \<Rightarrow> error + int" where
  "FindTextureSlot s t =
     FindTextureSlot_loop (m_textureIDs s) (m_loadedTextures s) t (- 1) 0 False"

subsection \<open>Material registry\<close>

text \<open>The loop of \<^verbatim>\<open>FindMaterial\<close>. It returns the found flag with the output material; the
  method itself does not return the flag.\<close>

function FindMaterial_loop ::
  "OBJECT_MATERIAL list \<Rightarrow> string \<Rightarrow> nat \<Rightarrow> bool \<Rightarrow> OBJECT_MATERIAL
     \<Rightarrow> bool \<times> OBJECT_MATERIAL" where
  "FindMaterial_loop ms t index bFound material =
     (if index < length ms \<and> bFound = False then
        (if material_tag (ms ! index) = t
         then FindMaterial_loop ms t index True
                (material\<lparr>diffuseColor := diffuseColor (ms ! index),
                          specularColor := specularColor (ms ! index),
                          shininess := shininess (ms ! index)\<rparr>)
         else FindMaterial_loop ms t (index + 1) bFound material)
      else (bFound, material))"
  by pat_completeness auto
termination
  by (relation "measure (\<lambda>(ms, t, index, bFound, material).
        if bFound then 0 else 1 + (length ms - index))") auto

text \<open>\<open>material\<close> is the caller's object behind the reference parameter; the second
  component of the result is that object on return.\<close>

definition FindMaterial ::
  "SceneManager \<Rightarrow> string \<Rightarrow> OBJECT_MATERIAL \<Rightarrow> bool \<times> OBJECT_MATERIAL" where
  "FindMaterial s t material =
     (if length (m_objectMaterials s) = 0 then (False, material)
      else (case FindMaterial_loop (m_objectMaterials s) t 0 False material of
              (bFound, material') \<Rightarrow> (True, material')))"

subsection \<open>Shader state\<close>

definition SetTransformations ::
  "vec3 \<Rightarrow> real \<Rightarrow> real \<Rightarrow> real \<Rightarrow> vec3 \<Rightarrow> SceneManager \<Rightarrow> error + SceneManager" where
  "SetTransformations scaleXYZ XrotationDegrees YrotationDegrees ZrotationDegrees positionXYZ s =
     (let scale = glm_scale scaleXYZ;
          rotationX = glm_rotate (glm_radians XrotationDegrees) (1, 0, 0);
          rotationY = glm_rotate (glm_radians YrotationDegrees) (0, 1, 0);
          rotationZ = glm_rotate (glm_radians ZrotationDegrees) (0, 0, 1);
          translation = glm_translate positionXYZ;
          modelView =
            mat4_mul (mat4_mul (mat4_mul (mat4_mul translation rotationZ) rotationY) rotationX)
              scale
      in if m_pShaderManager s \<noteq> None
         then shader_set ''model'' (Mat4Value modelView) s
         else Inr s)"

definition SetShaderColor ::
  "real \<Rightarrow> real \<Rightarrow> real \<Rightarrow> real \<Rightarrow> SceneManager \<Rightarrow> error + SceneManager" where
  "SetShaderColor redColorValue greenColorValue blueColorValue alphaValue s =
     (let currentColor = (redColorValue, greenColorValue, blueColorValue, alphaValue)
      in if m_pShaderManager s \<noteq> None
         then do_all [shader_set ''bUseTexture'' (IntValue 0),
                      shader_set ''objectColor'' (Vec4Value currentColor)] s
         else Inr s)"

definition SetShaderTexture :: "string \<Rightarrow> SceneManager \<Rightarrow> error + SceneManager" where
  "SetShaderTexture textureTag s =
     (if m_pShaderManager s \<noteq> None then
        (case shader_set ''bUseTexture'' (IntValue 1) s of
           Inl e \<Rightarrow> Inl e
         | Inr s1 \<Rightarrow>
             (case FindTextureSlot s1 textureTag of
                Inl e \<Rightarrow> Inl e
              | Inr textureID \<Rightarrow> shader_set ''objectTexture'' (Sampler2DValue textureID) s1))
      else Inr s)"

definition SetTextureUVScale :: "real \<Rightarrow> real \<Rightarrow> SceneManager \<Rightarrow> error + SceneManager" where
  "SetTextureUVScale u v s =
     (if m_pShaderManager s \<noteq> None
      then shader_set ''UVscale'' (Vec2Value (u, v)) s
      else Inr s)"

text \<open>\<open>material0\<close> stands for the contents of the method's local \<^verbatim>\<open>OBJECT_MATERIAL\<close>
  before \<^verbatim>\<open>FindMaterial\<close> is called; the source does not initialise it.\<close>

definition SetShaderMaterial ::
  "OBJECT_MATERIAL \<Rightarrow> string \<Rightarrow> SceneManager \<Rightarrow> error + SceneManager" where
  "SetShaderMaterial material0 materialTag s =
     (if length (m_objectMaterials s) > 0 then
        (case FindMaterial s materialTag material0 of
           (bReturn, material) \<Rightarrow>
             if bReturn = True
             then do_all
                    [shader_set ''material.diffuseColor'' (Vec3Value (diffuseColor material)),
                     shader_set ''material.specularColor'' (Vec3Value (specularColor material)),
                     shader_set ''material.shininess'' (FloatValue (shininess material))] s
             else Inr s)
      else Inr s)"

subsection \<open>Mesh requests\<close>

definition LoadMesh :: "mesh \<Rightarrow> SceneManager \<Rightarrow> error + SceneManager" where
  "LoadMesh m s =
     Inr (s\<lparr>m_basicMeshes := (m_basicMeshes s)\<lparr>loaded := loaded (m_basicMeshes s) @ [m]\<rparr>\<rparr>)"

definition DrawMesh :: "mesh \<Rightarrow> SceneManager \<Rightarrow> error + SceneManager" where
  "DrawMesh m s =
     Inr (s\<lparr>m_basicMeshes := (m_basicMeshes s)\<lparr>drawn := drawn (m_basicMeshes s) @ [m]\<rparr>\<rparr>)"

subsection \<open>Preparing the scene\<close>

text \<open>One \<^verbatim>\<open>bReturn = CreateGLTexture(...)\<close> statement: the result is only printed.\<close>

definition load_texture ::
  "(string \<Rightarrow> stbi_image option) \<Rightarrow> string \<Rightarrow> string \<Rightarrow> SceneManager
     \<Rightarrow> error + SceneManager" where
  "load_texture stbi_load filename t s =
     (case CreateGLTexture stbi_load filename t s of
        Inl e \<Rightarrow> Inl e
      | Inr (bReturn, s') \<Rightarrow> Inr s')"

definition LoadSceneTextures ::
  "(string \<Rightarrow> stbi_image option) \<Rightarrow> SceneManager \<Rightarrow> error + SceneManager" where
  "LoadSceneTextures stbi_load =
     do_all
       [load_texture stbi_load ''textures/bookcover.jpg'' ''bookcover_texture'',
        load_texture stbi_load ''textures/bookside.jpg'' ''bookside_texture'',
        load_texture stbi_load ''textures/counter.jpg'' ''counter_texture'',
        load_texture stbi_load ''textures/pages.jpg'' ''pages_texture'',
        load_texture stbi_load ''textures/wall.jpg'' ''wall_texture'',
        load_texture stbi_load ''textures/can.jpg'' ''can_texture'',
        load_texture stbi_load ''textures/canlid.jpg'' ''canlid_texture'',
        load_texture stbi_load ''textures/apple.jpg'' ''apple_texture'',
        load_texture stbi_load ''textures/carbonated.jpg'' ''carbonated_texture'',
        load_texture stbi_load ''textures/foam.jpg'' ''foam_texture'',
        BindGLTextures]"

definition push_back_material :: "OBJECT_MATERIAL \<Rightarrow> SceneManager \<Rightarrow> error + SceneManager" where
  "push_back_material m s = Inr (s\<lparr>m_objectMaterials := m_objectMaterials s @ [m]\<rparr>)"

definition DefineObjectMaterials :: "SceneManager \<Rightarrow> error + SceneManager" where
  "DefineObjectMaterials =
     do_all
       [push_back_material
          \<lparr>diffuseColor = (40.4, 0.4, 0), specularColor = (50.7, 50.7, 40.6),
           shininess = 90, material_tag = ''metal''\<rparr>,
        push_back_material
          \<lparr>diffuseColor = (0.2, 0.2, 0.3), specularColor = (0, 0, 0),
           shininess = 0.1, material_tag = ''paper''\<rparr>,
        push_back_material
          \<lparr>diffuseColor = (0.2, 0.2, 0.2), specularColor = (21, 16, 11),
           shininess = 95, material_tag = ''glass''\<rparr>,
        push_back_material
          \<lparr>diffuseColor = (0.4, 0.4, 0.4), specularColor = (0.2, 0.2, 0.2),
           shininess = 30, material_tag = ''plate''\<rparr>,
        push_back_material
          \<lparr>diffuseColor = (0.8, 0.8, 0.9), specularColor = (0, 0, 0),
           shininess = 2, material_tag = ''backdrop''\<rparr>,
        push_back_material
          \<lparr>diffuseColor = (0.4, 0.2, 0.4), specularColor = (0.1, 0.05, 0.1),
           shininess = 0.55, material_tag = ''apple''\<rparr>]"

definition SetupSceneLights :: "SceneManager \<Rightarrow> error + SceneManager" where
  "SetupSceneLights =
     (let lightIntensity = (0.8 :: real) in
      do_all
        [shader_set ''bUseLighting'' (BoolValue True),
         shader_set ''directionalLight.direction'' (Vec3Value (- 1, - 1, - 0.3)),
         shader_set ''directionalLight.ambient''
           (Vec3Value (0.4 * lightIntensity, 0.4 * lightIntensity, 0.35 * lightIntensity)),
         shader_set ''directionalLight.diffuse''
           (Vec3Value (1 * lightIntensity, 0.85 * lightIntensity, 0.65 * lightIntensity)),
         shader_set ''directionalLight.specular''
           (Vec3Value (0.9 * lightIntensity, 0.8 * lightIntensity, 0.6 * lightIntensity)),
         shader_set ''directionalLight.bActive'' (BoolValue True),
         shader_set ''pointLights[0].position'' (Vec3Value (- 4, 5, 2)),
         shader_set ''pointLights[0].ambient'' (Vec3Value (0.15, 0.15, 0.15)),
         shader_set ''pointLights[0].diffuse'' (Vec3Value (0.25, 0.25, 0.3)),
         shader_set ''pointLights[0].specular'' (Vec3Value (0.1, 0.1, 0.1)),
         shader_set ''pointLights[0].bActive'' (BoolValue True),
         shader_set ''pointLights[1].position'' (Vec3Value (2, 6, - 3)),
         shader_set ''pointLights[1].ambient'' (Vec3Value (0.2, 0.18, 0.15)),
         shader_set ''pointLights[1].diffuse'' (Vec3Value (0.45, 0.4, 0.35)),
         shader_set ''pointLights[1].specular'' (Vec3Value (0.5, 0.4, 0.3)),
         shader_set ''pointLights[1].bActive'' (BoolValue True)])"

definition PrepareScene ::
  "(string \<Rightarrow> stbi_image option) \<Rightarrow> SceneManager \<Rightarrow> error + SceneManager" where
  "PrepareScene stbi_load =
     do_all
       [DefineObjectMaterials,
        SetupSceneLights,
        LoadMesh PlaneMesh,
        LoadMesh CylinderMesh,
        LoadMesh SphereMesh,
        LoadMesh ConeMesh,
        LoadMesh BoxMesh,
        LoadMesh TaperedCylinderMesh,
        LoadMesh PlaneMesh,
        LoadMesh TorusMesh,
        LoadSceneTextures stbi_load]"

subsection \<open>Rendering a frame\<close>

text \<open>The three rotation variables of \<^verbatim>\<open>RenderScene\<close> are set to zero at the top and never
  assigned again, so every call that passes them passes zero.\<close>

definition RenderScene :: "OBJECT_MATERIAL \<Rightarrow> SceneManager \<Rightarrow> error + SceneManager" where
  "RenderScene material0 =
     (let XrotationDegrees = (0 :: real);
          YrotationDegrees = (0 :: real);
          ZrotationDegrees = (0 :: real) in
      do_all
       [SetTransformations (50, 1, 20) XrotationDegrees YrotationDegrees ZrotationDegrees
          (0, - 0.6, 0),
        SetShaderTexture ''counter_texture'',
        SetTextureUVScale 2 2,
        SetShaderTexture ''plate'',
        DrawMesh PlaneMesh,

        SetTransformations (1.5, 8, 1.5) XrotationDegrees YrotationDegrees ZrotationDegrees
          (- 3, 2, 0),
        SetShaderTexture ''can_texture'',
        SetTextureUVScale 1 1,
        SetShaderTexture ''glass'',
        DrawMesh CylinderMesh,

        SetTransformations (1.45, 0.001, 1.45) 0 75 0 (- 3, 10, 0),
        SetShaderTexture ''canlid_texture'',
        SetTextureUVScale 1 1,
        SetShaderTexture ''glass'',
        DrawMesh CylinderMesh,

        SetTransformations (0.25, 1, 0.25) XrotationDegrees YrotationDegrees ZrotationDegrees
          (- 6, 3.4, 3),
        SetShaderColor 1 1 1 0.3,
        SetShaderMaterial material0 ''glass'',
        DrawMesh CylinderMesh,

        SetTransformations (1.3, 1, 1.3) XrotationDegrees YrotationDegrees ZrotationDegrees
          (- 6, 2, 3),
        SetShaderColor 1 1 1 0.4,
        SetShaderMaterial material0 ''glass'',
        DrawMesh CylinderMesh,

        SetTransformations (1.4, 1.5, 1.4) XrotationDegrees YrotationDegrees ZrotationDegrees
          (- 6, 6.3, 3),
        SetShaderColor 1 1 1 0.7,
        SetShaderMaterial material0 ''glass'',
        DrawMesh TaperedCylinderMesh,

        SetTransformations (1.4, 0.5, 1.4) XrotationDegrees YrotationDegrees ZrotationDegrees
          (- 6, 5.80, 3),
        SetShaderColor 1 1 1 0.7,
        SetShaderMaterial material0 ''glass'',
        DrawMesh CylinderMesh,

        SetTransformations (1.4, 1.5, 1.4) XrotationDegrees YrotationDegrees ZrotationDegrees
          (- 6, 5.90, 3),
        SetShaderColor 1 1 1 0.7,
        SetShaderMaterial material0 ''glass'',
        DrawMesh SphereMesh,

        SetTransformations (1.3, 0.5, 1.3) XrotationDegrees YrotationDegrees ZrotationDegrees
          (- 6, 3, 3),
        SetShaderColor 1 1 1 0.3,
        SetShaderMaterial material0 ''glass'',
        DrawMesh ConeMesh,

        SetTransformations (1, - 1, 1) XrotationDegrees YrotationDegrees ZrotationDegrees
          (- 6, 5, 3),
        SetShaderColor 1 1 1 0.3,
        SetShaderMaterial material0 ''glass'',
        DrawMesh ConeMesh,

        SetTransformations (15, 2, 10) XrotationDegrees YrotationDegrees ZrotationDegrees
          (- 2, 1, 2.5),
        SetShaderTexture ''pages_texture'',
        SetTextureUVScale 1 1,
        DrawMesh BoxMesh,
        SetShaderMaterial material0 ''paper'',

        SetTransformations (10.5, 0.25, 15.5) 0 90 ZrotationDegrees (- 2, 2, 2.5),
        SetShaderTexture ''bookcover_texture'',
        SetTextureUVScale 1 1,
        SetShaderMaterial material0 ''paper'',
        DrawMesh BoxMesh,

        SetTransformations (10.5, 0.25, 15.5) 0 90 ZrotationDegrees (- 2, - 0.25, 2.5),
        SetShaderTexture ''bookcover_texture'',
        SetTextureUVScale 1 1,
        SetShaderMaterial material0 ''paper'',
        DrawMesh BoxMesh,

        SetTransformations (15.5, 0.25, 2.5) 90 0 0 (- 2, 0.90, 7.75),
        SetShaderTexture ''bookside_texture'',
        SetTextureUVScale 1 1,
        SetShaderMaterial material0 ''paper'',
        DrawMesh BoxMesh,

        SetTransformations (50, 0.25, 30) 90 0 0 (0, 20, - 4),
        SetShaderTexture ''wall_texture'',
        SetTextureUVScale 1 1,
        SetShaderMaterial material0 ''backdrop'',
        DrawMesh PlaneMesh,

        SetTransformations (3, 1.6, 3) (- 1) 90 (- 10) (1.7, 3.4, 3),
        SetShaderColor 1 1 1 1,
        SetShaderTexture ''apple_texture'',
        SetShaderMaterial material0 ''apple'',
        DrawMesh SphereMesh])"

section \<open>The view manager\<close>

text \<open>
  The fields of the camera object that the view manager reads or writes, and the
  variables of the file's anonymous namespace. A null \<open>g_pCamera\<close> is \<open>None\<close>.
\<close>

record Camera =
  Position :: vec3
  Front :: vec3
  Up :: vec3
  Zoom :: real
  MovementSpeed :: real

record ViewGlobals =
  g_pCamera :: "Camera option"
  gLastX :: real
  gLastY :: real
  gFirstMouse :: bool
  gDeltaTime :: real
  gLastFrame :: real
  bOrthographicProjection :: bool

text \<open>The namespace's initialisers followed by the constructor's assignments.\<close>

definition ViewManager_constructed :: ViewGlobals where
  "ViewManager_constructed =
     \<lparr>g_pCamera = Some \<lparr>Position = (0, 5, 12), Front = (0, - 0.5, - 2), Up = (0, 1, 0),
                          Zoom = 80, MovementSpeed = 5\<rparr>,
      gLastX = 1000 / 2, gLastY = 800 / 2, gFirstMouse = True,
      gDeltaTime = 0, gLastFrame = 0, bOrthographicProjection = False\<rparr>"

text \<open>The constructor body on the namespace's variables. It makes a new camera and
  assigns to no other variable of the namespace: \<open>gFirstMouse\<close>, \<open>gLastX\<close> and
  \<open>gLastY\<close> keep the values they have.\<close>

definition ViewManager_constructor :: "ViewGlobals \<Rightarrow> ViewGlobals" where
  "ViewManager_constructor g =
     g\<lparr>g_pCamera := Some \<lparr>Position = (0, 5, 12), Front = (0, - 0.5, - 2), Up = (0, 1, 0),
                            Zoom = 80, MovementSpeed = 5\<rparr>\<rparr>"

text \<open>Modelled from the spec: \<^verbatim>\<open>Camera::ProcessMouseMovement\<close>, a method of the camera
  class, which is not among the sources. The specification says that the offset of an
  event is fed into a look-direction update and that the orientation changes by a delta
  proportional to the cursor displacement. The model adds the offset, scaled by a
  sensitivity, to the horizontal and vertical entries of the look direction \<open>Front\<close> and
  leaves every other field as it is.\<close>

definition Camera_ProcessMouseMovement ::
  "real \<Rightarrow> Camera \<Rightarrow> real \<Rightarrow> real \<Rightarrow> Camera" where
  "Camera_ProcessMouseMovement sensitivity c xoffset yoffset =
     c\<lparr>Front := (case Front c of (a, b, d) \<Rightarrow>
                    (a + sensitivity * xoffset, b + sensitivity * yoffset, d))\<rparr>"

text \<open>The callback itself is written for any look-direction update: it takes the method
  it calls as the parameter \<open>ProcessMouseMovement\<close>.\<close>

definition Mouse_Position_Callback ::
  "(Camera \<Rightarrow> real \<Rightarrow> real \<Rightarrow> Camera) \<Rightarrow> ViewGlobals \<Rightarrow> real \<Rightarrow> real
     \<Rightarrow> error + ViewGlobals" where
  "Mouse_Position_Callback ProcessMouseMovement g xMousePos yMousePos =
     (let g1 = (if gFirstMouse g
                then g\<lparr>gLastX := xMousePos, gLastY := yMousePos, gFirstMouse := False\<rparr>
                else g);
          xOffset = xMousePos - gLastX g1;
          yOffset = gLastY g1 - yMousePos;
          g2 = g1\<lparr>gLastX := xMousePos, gLastY := yMousePos\<rparr>
      in case g_pCamera g2 of
           None \<Rightarrow> Inl NullPointerDereference
         | Some cam \<Rightarrow> Inr (g2\<lparr>g_pCamera := Some (ProcessMouseMovement cam xOffset yOffset)\<rparr>))"

definition Mouse_Scroll_Callback :: "ViewGlobals \<Rightarrow> real \<Rightarrow> real \<Rightarrow> error + ViewGlobals" where
  "Mouse_Scroll_Callback g xOffset yOffset =
     (case g_pCamera g of
        None \<Rightarrow> Inl NullPointerDereference
      | Some cam \<Rightarrow>
          if yOffset > 0 then
            Inr (g\<lparr>g_pCamera := Some (cam\<lparr>MovementSpeed := MovementSpeed cam + 2\<rparr>)\<rparr>)
          else if yOffset < 0 then
            (let cam1 = cam\<lparr>MovementSpeed := MovementSpeed cam - 2\<rparr>;
                 cam2 = (if MovementSpeed cam1 < 1 then cam1\<lparr>MovementSpeed := 1\<rparr> else cam1)
             in Inr (g\<lparr>g_pCamera := Some cam2\<rparr>))
          else Inr g)"

text \<open>A stream of events delivered to a callback, in order.\<close>

fun scroll_events :: "ViewGlobals \<Rightarrow> (real \<times> real) list \<Rightarrow> error + ViewGlobals" where
  "scroll_events g [] = Inr g"
| "scroll_events g ((xOffset, yOffset) # es) =
     (case Mouse_Scroll_Callback g xOffset yOffset of
        Inl e \<Rightarrow> Inl e
      | Inr g' \<Rightarrow> scroll_events g' es)"

fun mouse_events ::
  "(Camera \<Rightarrow> real \<Rightarrow> real \<Rightarrow> Camera) \<Rightarrow> ViewGlobals \<Rightarrow> (real \<times> real) list
     \<Rightarrow> error + ViewGlobals" where
  "mouse_events pmm g [] = Inr g"
| "mouse_events pmm g ((xMousePos, yMousePos) # es) =
     (case Mouse_Position_Callback pmm g xMousePos yMousePos of
        Inl e \<Rightarrow> Inl e
      | Inr g' \<Rightarrow> mouse_events pmm g' es)"

section \<open>The transformation order of the specification\<close>

text \<open>
  The elementary transformations the specification names, written out as the usual
  homogeneous matrices (by columns), with angles in degrees.
\<close>

definition Scale :: "vec3 \<Rightarrow> mat4" where
  "Scale S = (case S of (sx, sy, sz) \<Rightarrow>
     ((sx, 0, 0, 0), (0, sy, 0, 0), (0, 0, sz, 0), (0, 0, 0, 1)))"

definition RotateX :: "real \<Rightarrow> mat4" where
  "RotateX d = (let a = d * pi / 180 in
     ((1, 0, 0, 0), (0, cos a, sin a, 0), (0, - sin a, cos a, 0), (0, 0, 0, 1)))"

definition RotateY :: "real \<Rightarrow> mat4" where
  "RotateY d = (let a = d * pi / 180 in
     ((cos a, 0, - sin a, 0), (0, 1, 0, 0), (sin a, 0, cos a, 0), (0, 0, 0, 1)))"

definition RotateZ :: "real \<Rightarrow> mat4" where
  "RotateZ d = (let a = d * pi / 180 in
     ((cos a, sin a, 0, 0), (- sin a, cos a, 0, 0), (0, 0, 1, 0), (0, 0, 0, 1)))"

definition Translate :: "vec3 \<Rightarrow> mat4" where
  "Translate T = (case T of (tx, ty, tz) \<Rightarrow>
     ((1, 0, 0, 0), (0, 1, 0, 0), (0, 0, 1, 0), (tx, ty, tz, 1)))"

section \<open>Registry views and example states\<close>

text \<open>The entries of the texture array that are in use, in registration order.\<close>

definition registered :: "SceneManager \<Rightarrow> TEXTURE_INFO list" where
  "registered s = take (nat (m_loadedTextures s)) (m_textureIDs s)"

text \<open>The offsets between consecutive cursor positions, x forward and y inverted,
  starting from a given last position.\<close>

fun cursor_offsets :: "real \<times> real \<Rightarrow> (real \<times> real) list \<Rightarrow> (real \<times> real) list" where
  "cursor_offsets l [] = []"
| "cursor_offsets l (p # ps) = (fst p - fst l, snd l - snd p) # cursor_offsets p ps"

text \<open>A look-direction update fed with a list of offsets, one call per offset.\<close>

definition feed ::
  "(Camera \<Rightarrow> real \<Rightarrow> real \<Rightarrow> Camera) \<Rightarrow> Camera \<Rightarrow> (real \<times> real) list \<Rightarrow> Camera" where
  "feed pmm cam offs = foldl (\<lambda>c d. pmm c (fst d) (snd d)) cam offs"

text \<open>A scene manager with nothing registered: an empty texture array of 16 slots (the
  number the source's comment on binding gives), no materials, no mesh requests.\<close>

definition no_texture :: TEXTURE_INFO where
  "no_texture = \<lparr>ID = 0, tag = []\<rparr>"

definition fresh_scene :: "ShaderManager option \<Rightarrow> SceneManager" where
  "fresh_scene shader =
     \<lparr>m_pShaderManager = shader,
      m_basicMeshes = \<lparr>loaded = [], drawn = []\<rparr>,
      m_textureIDs = replicate 16 no_texture,
      m_loadedTextures = 0,
      m_objectMaterials = [],
      gl = \<lparr>gl_lastTexture = 0, gl_activeTexture = 0, gl_binding2D = (\<lambda>u. 0)\<rparr>\<rparr>"

definition metal :: OBJECT_MATERIAL where
  "metal = \<lparr>diffuseColor = (40.4, 0.4, 0), specularColor = (50.7, 50.7, 40.6),
            shininess = 90, material_tag = ''metal''\<rparr>"

text \<open>A registry of three slots with two textures in use, as two successful loads on
  an empty registry leave it.\<close>

definition two_textures :: SceneManager where
  "two_textures =
     \<lparr>m_pShaderManager = Some [],
      m_basicMeshes = \<lparr>loaded = [], drawn = []\<rparr>,
      m_textureIDs = [\<lparr>ID = 1, tag = ''wall_texture''\<rparr>, \<lparr>ID = 2, tag = ''can_texture''\<rparr>,
                      no_texture],
      m_loadedTextures = 2,
      m_objectMaterials = [],
      gl = \<lparr>gl_lastTexture = 2, gl_activeTexture = 0, gl_binding2D = (\<lambda>u. 0)\<rparr>\<rparr>"

text \<open>Decoders for the examples: every file decodes to a 4 by 4 image with the given
  number of channels.\<close>

definition decodes_with :: "int \<Rightarrow> string \<Rightarrow> stbi_image option" where
  "decodes_with channels filename = Some \<lparr>width = 4, height = 4, colorChannels = channels\<rparr>"

text \<open>Every handle in the registry is a texture name the graphics API has handed out.\<close>

definition handles_issued :: "SceneManager \<Rightarrow> bool" where
  "handles_issued s \<longleftrightarrow> (\<forall>e \<in> set (registered s). ID e \<le> gl_lastTexture (gl s))"

declare BindGLTextures_loop.simps [simp del]
declare FindTextureID_loop.simps [simp del]
declare FindTextureSlot_loop.simps [simp del]
declare FindMaterial_loop.simps [simp del]

section \<open>Properties\<close>

subsection \<open>The model matrix\<close>

lemma mat4_mul_vec4_assoc:
  "mat4_mul_vec4 (mat4_mul A B) v = mat4_mul_vec4 A (mat4_mul_vec4 B v)"
proof -
  obtain a0 a1 a2 a3 where A: "A = (a0, a1, a2, a3)" by (cases A)
  obtain b0 b1 b2 b3 where B: "B = (b0, b1, b2, b3)" by (cases B)
  obtain x y z w where v: "v = (x, y, z, w)" by (cases v)
  obtain a00 a01 a02 a03 where a0: "a0 = (a00, a01, a02, a03)" by (cases a0)
  obtain a10 a11 a12 a13 where a1: "a1 = (a10, a11, a12, a13)" by (cases a1)
  obtain a20 a21 a22 a23 where a2: "a2 = (a20, a21, a22, a23)" by (cases a2)
  obtain a30 a31 a32 a33 where a3: "a3 = (a30, a31, a32, a33)" by (cases a3)
  obtain b00 b01 b02 b03 where b0: "b0 = (b00, b01, b02, b03)" by (cases b0)
  obtain b10 b11 b12 b13 where b1: "b1 = (b10, b11, b12, b13)" by (cases b1)
  obtain b20 b21 b22 b23 where b2: "b2 = (b20, b21, b22, b23)" by (cases b2)
  obtain b30 b31 b32 b33 where b3: "b3 = (b30, b31, b32, b33)" by (cases b3)
  show ?thesis
    unfolding A B v a0 a1 a2 a3 b0 b1 b2 b3
    by (simp add: mat4_mul_def mat4_mul_vec4_def vec4_add_def vec4_scale_def algebra_simps)
qed

lemma glm_scale_Scale: "glm_scale S = Scale S"
  by (simp add: glm_scale_def Scale_def)

lemma glm_translate_Translate: "glm_translate T = Translate T"
  by (simp add: glm_translate_def Translate_def)

lemma glm_rotate_X: "glm_rotate (glm_radians d) (1, 0, 0) = RotateX d"
  by (simp add: glm_rotate_def glm_radians_def glm_normalize_def RotateX_def Let_def)

lemma glm_rotate_Y: "glm_rotate (glm_radians d) (0, 1, 0) = RotateY d"
  by (simp add: glm_rotate_def glm_radians_def glm_normalize_def RotateY_def Let_def)

lemma glm_rotate_Z: "glm_rotate (glm_radians d) (0, 0, 1) = RotateZ d"
  by (simp add: glm_rotate_def glm_radians_def glm_normalize_def RotateZ_def Let_def)

text \<open>
  C4. With a shader manager present, \<open>SetTransformations\<close> pushes as the uniform
  \<open>model\<close> the matrix \<open>Translate(T) * RotateZ(rz) * RotateY(ry) * RotateX(rx) * Scale(S)\<close>
  (angles in degrees). Applied to a vector, that matrix scales first, then rotates about
  X, then about Y, then about Z, and translates last. In the witness the point
  \<open>(1,1,1)\<close> with \<open>S = (2,1,1)\<close>, no rotation and \<open>T = (5,0,0)\<close> goes to \<open>(7,1,1)\<close>.
\<close>

theorem SetTransformations_model_matrix:
  assumes "m_pShaderManager s = Some pushes"
  shows "\<exists>M. SetTransformations S rx ry rz T s =
             Inr (s\<lparr>m_pShaderManager := Some (pushes @ [(''model'', Mat4Value M)])\<rparr>)
         \<and> M = mat4_mul (mat4_mul (mat4_mul (mat4_mul (Translate T) (RotateZ rz)) (RotateY ry))
                   (RotateX rx)) (Scale S)
         \<and> (\<forall>v. mat4_mul_vec4 M v =
              mat4_mul_vec4 (Translate T) (mat4_mul_vec4 (RotateZ rz) (mat4_mul_vec4 (RotateY ry)
                (mat4_mul_vec4 (RotateX rx) (mat4_mul_vec4 (Scale S) v)))))"
proof -
  let ?M = "mat4_mul (mat4_mul (mat4_mul (mat4_mul (Translate T) (RotateZ rz)) (RotateY ry))
              (RotateX rx)) (Scale S)"
  have pushed: "SetTransformations S rx ry rz T s =
      Inr (s\<lparr>m_pShaderManager := Some (pushes @ [(''model'', Mat4Value ?M)])\<rparr>)"
    using assms
    by (simp add: SetTransformations_def shader_set_def Let_def
        glm_scale_Scale glm_translate_Translate glm_rotate_X glm_rotate_Y glm_rotate_Z)
  have order: "\<forall>v. mat4_mul_vec4 ?M v =
      mat4_mul_vec4 (Translate T) (mat4_mul_vec4 (RotateZ rz) (mat4_mul_vec4 (RotateY ry)
        (mat4_mul_vec4 (RotateX rx) (mat4_mul_vec4 (Scale S) v))))"
    by (simp add: mat4_mul_vec4_assoc)
  from pushed order show ?thesis by blast
qed

theorem SetTransformations_model_matrix_witness:
  "\<exists>M. SetTransformations (2, 1, 1) 0 0 0 (5, 0, 0) (fresh_scene (Some [])) =
          Inr ((fresh_scene (Some []))\<lparr>m_pShaderManager := Some [(''model'', Mat4Value M)]\<rparr>)
       \<and> mat4_mul_vec4 M (1, 1, 1, 1) = (7, 1, 1, 1)"
proof -
  have h: "m_pShaderManager (fresh_scene (Some [])) = Some []"
    by (simp add: fresh_scene_def)
  from SetTransformations_model_matrix [OF h, of "(2, 1, 1)" 0 0 0 "(5, 0, 0)"]
  obtain M where
    M1: "SetTransformations (2, 1, 1) 0 0 0 (5, 0, 0) (fresh_scene (Some [])) =
           Inr ((fresh_scene (Some []))\<lparr>m_pShaderManager := Some ([] @ [(''model'', Mat4Value M)])\<rparr>)"
    and M3: "\<forall>v. mat4_mul_vec4 M v =
              mat4_mul_vec4 (Translate (5, 0, 0)) (mat4_mul_vec4 (RotateZ 0) (mat4_mul_vec4 (RotateY 0)
                (mat4_mul_vec4 (RotateX 0) (mat4_mul_vec4 (Scale (2, 1, 1)) v))))"
    by blast
  have "mat4_mul_vec4 M (1, 1, 1, 1) =
      mat4_mul_vec4 (Translate (5, 0, 0)) (mat4_mul_vec4 (RotateZ 0) (mat4_mul_vec4 (RotateY 0)
        (mat4_mul_vec4 (RotateX 0) (mat4_mul_vec4 (Scale (2, 1, 1)) (1, 1, 1, 1)))))"
    using M3 by blast
  also have "\<dots> = (7, 1, 1, 1)"
    by (simp add: Translate_def RotateX_def RotateY_def RotateZ_def Scale_def
        mat4_mul_vec4_def vec4_add_def vec4_scale_def)
  finally have image: "mat4_mul_vec4 M (1, 1, 1, 1) = (7, 1, 1, 1)" .
  from M1 have "SetTransformations (2, 1, 1) 0 0 0 (5, 0, 0) (fresh_scene (Some [])) =
      Inr ((fresh_scene (Some []))\<lparr>m_pShaderManager := Some [(''model'', Mat4Value M)]\<rparr>)"
    by simp
  with image show ?thesis by blast
qed


subsection \<open>Scroll input\<close>

lemma Mouse_Scroll_Callback_floor:
  assumes "g_pCamera g = Some cam" and "1 \<le> MovementSpeed cam"
  shows "\<exists>g' cam'. Mouse_Scroll_Callback g x y = Inr g' \<and> g_pCamera g' = Some cam'
           \<and> 1 \<le> MovementSpeed cam'"
  using assms by (auto simp: Mouse_Scroll_Callback_def Let_def)

lemma Mouse_Scroll_Callback_down:
  assumes "g_pCamera g = Some cam" and "y < 0"
  shows "\<exists>g' cam'. Mouse_Scroll_Callback g x y = Inr g' \<and> g_pCamera g' = Some cam'
           \<and> MovementSpeed cam' = max 1 (MovementSpeed cam - 2)"
  using assms by (auto simp: Mouse_Scroll_Callback_def Let_def)

lemma scroll_events_floor:
  "g_pCamera g = Some cam \<Longrightarrow> 1 \<le> MovementSpeed cam \<Longrightarrow>
   \<exists>g' cam'. scroll_events g es = Inr g' \<and> g_pCamera g' = Some cam' \<and> 1 \<le> MovementSpeed cam'"
proof (induction es arbitrary: g cam)
  case Nil
  then show ?case by simp
next
  case (Cons e es)
  obtain x y where e: "e = (x, y)" by (cases e)
  from Mouse_Scroll_Callback_floor [OF Cons.prems, of x y]
  obtain g1 cam1 where step: "Mouse_Scroll_Callback g x y = Inr g1"
    and cam1: "g_pCamera g1 = Some cam1" and floor1: "1 \<le> MovementSpeed cam1"
    by blast
  from Cons.IH [OF cam1 floor1] show ?case
    by (simp add: e step)
qed

lemma scroll_events_down:
  "g_pCamera g = Some cam \<Longrightarrow> 1 \<le> MovementSpeed cam \<Longrightarrow> \<forall>e\<in>set es. snd e < 0 \<Longrightarrow>
   \<exists>g' cam'. scroll_events g es = Inr g' \<and> g_pCamera g' = Some cam'
      \<and> MovementSpeed cam' = max 1 (MovementSpeed cam - 2 * real (length es))"
proof (induction es arbitrary: g cam)
  case Nil
  then show ?case by (simp add: max_def)
next
  case (Cons e es)
  obtain x y where e: "e = (x, y)" by (cases e)
  from Cons.prems have neg: "y < 0" and rest: "\<forall>e\<in>set es. snd e < 0"
    by (simp_all add: e)
  from Mouse_Scroll_Callback_down [OF Cons.prems(1) neg, of x]
  obtain g1 cam1 where step: "Mouse_Scroll_Callback g x y = Inr g1"
    and cam1: "g_pCamera g1 = Some cam1"
    and speed1: "MovementSpeed cam1 = max 1 (MovementSpeed cam - 2)"
    by blast
  from speed1 have floor1: "1 \<le> MovementSpeed cam1" by simp
  from Cons.IH [OF cam1 floor1 rest]
  obtain g' cam' where run: "scroll_events g1 es = Inr g'" and cam': "g_pCamera g' = Some cam'"
    and speed': "MovementSpeed cam' = max 1 (MovementSpeed cam1 - 2 * real (length es))"
    by blast
  have "max 1 (max 1 (MovementSpeed cam - 2) - 2 * real (length es)) =
        max 1 (MovementSpeed cam - 2 * real (length (e # es)))"
    by (simp add: max_def)
  with speed' speed1 have "MovementSpeed cam' = max 1 (MovementSpeed cam - 2 * real (length (e # es)))"
    by simp
  with run cam' show ?case
    by (simp add: e step)
qed

text \<open>
  C8. Starting from a camera whose movement speed is at least 1, after any sequence of
  scroll events the speed is still at least 1. After \<open>n\<close> events that all scroll down the
  speed is \<open>max 1 (speed - 2n)\<close>: it stops at exactly 1 once the decrements reach the
  floor and stays there. In the witness, 100 downward events from the constructor's
  speed 5 leave the speed at exactly 1.
\<close>

theorem scroll_speed_never_below_floor:
  assumes "g_pCamera g = Some cam" and "1 \<le> MovementSpeed cam"
  shows "\<exists>g' cam'. scroll_events g es = Inr g' \<and> g_pCamera g' = Some cam'
           \<and> 1 \<le> MovementSpeed cam'
           \<and> ((\<forall>e\<in>set es. snd e < 0) \<longrightarrow>
                 MovementSpeed cam' = max 1 (MovementSpeed cam - 2 * real (length es)))
           \<and> ((\<forall>e\<in>set es. snd e < 0) \<and> MovementSpeed cam \<le> 1 + 2 * real (length es) \<longrightarrow>
                 MovementSpeed cam' = 1)"
proof -
  from scroll_events_floor [OF assms, of es]
  obtain g' cam' where run: "scroll_events g es = Inr g'" and cam': "g_pCamera g' = Some cam'"
    and floor: "1 \<le> MovementSpeed cam'"
    by blast
  have down: "MovementSpeed cam' = max 1 (MovementSpeed cam - 2 * real (length es))"
    if "\<forall>e\<in>set es. snd e < 0"
    using scroll_events_down [OF assms that] run cam' by auto
  have "MovementSpeed cam' = 1"
    if "\<forall>e\<in>set es. snd e < 0" and "MovementSpeed cam \<le> 1 + 2 * real (length es)"
    using down [OF that(1)] that(2) by (simp add: max_def)
  with run cam' floor down show ?thesis by blast
qed

theorem scroll_speed_never_below_floor_witness:
  "\<exists>g' cam'. scroll_events ViewManager_constructed (replicate 100 (0, - 1)) = Inr g'
      \<and> g_pCamera g' = Some cam' \<and> MovementSpeed cam' = 1"
proof -
  let ?cam = "\<lparr>Position = (0, 5, 12), Front = (0, - 0.5, - 2), Up = (0, 1, 0),
               Zoom = 80, MovementSpeed = 5\<rparr>"
  have c: "g_pCamera ViewManager_constructed = Some ?cam"
    by (simp add: ViewManager_constructed_def)
  have f: "1 \<le> MovementSpeed ?cam" by simp
  from scroll_speed_never_below_floor [OF c f, of "replicate 100 (0, - 1)"]
  show ?thesis by auto
qed


subsection \<open>Mouse input\<close>

lemma Mouse_Position_Callback_first:
  assumes "g_pCamera g = Some cam" and "gFirstMouse g"
  shows "Mouse_Position_Callback pmm g x y =
           Inr (g\<lparr>gLastX := x, gLastY := y, gFirstMouse := False,
                  g_pCamera := Some (pmm cam 0 0)\<rparr>)"
  using assms by (simp add: Mouse_Position_Callback_def Let_def)

lemma Mouse_Position_Callback_next:
  assumes "g_pCamera g = Some cam" and "\<not> gFirstMouse g"
  shows "Mouse_Position_Callback pmm g x y =
           Inr (g\<lparr>gLastX := x, gLastY := y,
                  g_pCamera := Some (pmm cam (x - gLastX g) (gLastY g - y))\<rparr>)"
  using assms by (simp add: Mouse_Position_Callback_def Let_def)

lemma mouse_events_next:
  "g_pCamera g = Some cam \<Longrightarrow> \<not> gFirstMouse g \<Longrightarrow>
   \<exists>g'. mouse_events pmm g es = Inr g'
      \<and> g_pCamera g' = Some (feed pmm cam (cursor_offsets (gLastX g, gLastY g) es))
      \<and> \<not> gFirstMouse g'"
proof (induction es arbitrary: g cam)
  case Nil
  then show ?case by (simp add: feed_def)
next
  case (Cons e es)
  obtain x y where e: "e = (x, y)" by (cases e)
  let ?g1 = "g\<lparr>gLastX := x, gLastY := y,
               g_pCamera := Some (pmm cam (x - gLastX g) (gLastY g - y))\<rparr>"
  have step: "Mouse_Position_Callback pmm g x y = Inr ?g1"
    by (rule Mouse_Position_Callback_next [OF Cons.prems])
  have c1: "g_pCamera ?g1 = Some (pmm cam (x - gLastX g) (gLastY g - y))" by simp
  have f1: "\<not> gFirstMouse ?g1" using Cons.prems(2) by simp
  from Cons.IH [OF c1 f1] show ?case
    by (simp add: e step feed_def)
qed

text \<open>The modelled look-direction update leaves the camera alone on a zero offset.\<close>

lemma Camera_ProcessMouseMovement_zero: "Camera_ProcessMouseMovement k cam 0 0 = cam"
  by (cases "Front cam") (simp add: Camera_ProcessMouseMovement_def)

text \<open>
  C9, as amended. While \<open>gFirstMouse\<close> is set, a cursor event changes nothing but the
  last position, which it stores, and the flag, which it clears: the camera and with it
  the orientation stay as they were. Once the flag is cleared, an event feeds the
  look-direction update the offset \<open>(x - lastX, lastY - y)\<close> from the stored last
  position, so over a stream of events each one after the first feeds the displacement
  since the previous event, in order. Constructing the view manager again leaves the
  flag and the last position as they are.
\<close>

theorem first_mouse_event_seeds_then_offsets:
  assumes "g_pCamera g = Some cam"
  shows "(gFirstMouse g \<longrightarrow>
            Mouse_Position_Callback (Camera_ProcessMouseMovement k) g x y
              = Inr (g\<lparr>gLastX := x, gLastY := y, gFirstMouse := False\<rparr>)
          \<and> (\<exists>g'. mouse_events (Camera_ProcessMouseMovement k) g ((x, y) # es) = Inr g'
               \<and> g_pCamera g'
                   = Some (feed (Camera_ProcessMouseMovement k) cam (cursor_offsets (x, y) es))))
       \<and> (\<not> gFirstMouse g \<longrightarrow>
            Mouse_Position_Callback (Camera_ProcessMouseMovement k) g x y
              = Inr (g\<lparr>gLastX := x, gLastY := y,
                      g_pCamera := Some (Camera_ProcessMouseMovement k cam
                                           (x - gLastX g) (gLastY g - y))\<rparr>)
          \<and> (\<exists>g'. mouse_events (Camera_ProcessMouseMovement k) g es = Inr g'
               \<and> g_pCamera g'
                   = Some (feed (Camera_ProcessMouseMovement k) cam
                             (cursor_offsets (gLastX g, gLastY g) es))))
       \<and> gFirstMouse (ViewManager_constructor g) = gFirstMouse g
       \<and> gLastX (ViewManager_constructor g) = gLastX g
       \<and> gLastY (ViewManager_constructor g) = gLastY g"
proof -
  let ?pmm = "Camera_ProcessMouseMovement k"
  have ctor: "gFirstMouse (ViewManager_constructor g) = gFirstMouse g
       \<and> gLastX (ViewManager_constructor g) = gLastX g
       \<and> gLastY (ViewManager_constructor g) = gLastY g"
    by (simp add: ViewManager_constructor_def)
  show ?thesis
  proof (cases "gFirstMouse g")
    case True
    let ?g1 = "g\<lparr>gLastX := x, gLastY := y, gFirstMouse := False\<rparr>"
    have "g\<lparr>gLastX := x, gLastY := y, gFirstMouse := False, g_pCamera := Some cam\<rparr> = ?g1"
      using assms by simp
    with Mouse_Position_Callback_first [OF assms True, of ?pmm x y]
    have step: "Mouse_Position_Callback ?pmm g x y = Inr ?g1"
      by (simp add: Camera_ProcessMouseMovement_zero)
    have c1: "g_pCamera ?g1 = Some cam" using assms by simp
    have f1: "\<not> gFirstMouse ?g1" by simp
    from mouse_events_next [OF c1 f1, of ?pmm es]
    obtain g' where run: "mouse_events ?pmm ?g1 es = Inr g'"
      and cam': "g_pCamera g' = Some (feed ?pmm cam (cursor_offsets (x, y) es))"
      by auto
    have "mouse_events ?pmm g ((x, y) # es) = Inr g'"
      by (simp add: step run)
    with cam' True step ctor show ?thesis by auto
  next
    case False
    from Mouse_Position_Callback_next [OF assms False, of ?pmm x y]
      mouse_events_next [OF assms False, of ?pmm es] False ctor
    show ?thesis by auto
  qed
qed

theorem first_mouse_event_seeds_then_offsets_witness:
  "Mouse_Position_Callback (Camera_ProcessMouseMovement 1) ViewManager_constructed 10 20
     = Inr (ViewManager_constructed\<lparr>gLastX := 10, gLastY := 20, gFirstMouse := False\<rparr>)
   \<and> (\<exists>g'. mouse_events (Camera_ProcessMouseMovement 1) ViewManager_constructed
               [(10, 20), (13, 18), (13, 25)] = Inr g'
      \<and> map_option Front (g_pCamera g') = Some (3, - 5.5, - 2))
   \<and> (\<exists>g'. mouse_events (Camera_ProcessMouseMovement 1)
               (ViewManager_constructed\<lparr>gFirstMouse := False\<rparr>) [(503, 398)] = Inr g'
      \<and> map_option Front (g_pCamera g') = Some (3, 1.5, - 2))"
proof -
  let ?cam = "\<lparr>Position = (0, 5, 12), Front = (0, - 0.5, - 2), Up = (0, 1, 0),
               Zoom = 80, MovementSpeed = 5\<rparr>"
  let ?g2 = "ViewManager_constructed\<lparr>gFirstMouse := False\<rparr>"
  have c: "g_pCamera ViewManager_constructed = Some ?cam"
    by (simp add: ViewManager_constructed_def)
  have f: "gFirstMouse ViewManager_constructed"
    by (simp add: ViewManager_constructed_def)
  have c2: "g_pCamera ?g2 = Some ?cam"
    by (simp add: ViewManager_constructed_def)
  have f2: "\<not> gFirstMouse ?g2" "gLastX ?g2 = 500" "gLastY ?g2 = 400"
    by (simp_all add: ViewManager_constructed_def)
  note T1 = first_mouse_event_seeds_then_offsets [OF c, of 1 10 20 "[(13, 18), (13, 25)]"]
  from T1 f
  have first: "Mouse_Position_Callback (Camera_ProcessMouseMovement 1) ViewManager_constructed 10 20
       = Inr (ViewManager_constructed\<lparr>gLastX := 10, gLastY := 20, gFirstMouse := False\<rparr>)"
    by blast
  from T1 f obtain g' where run: "mouse_events (Camera_ProcessMouseMovement 1)
        ViewManager_constructed ((10, 20) # [(13, 18), (13, 25)]) = Inr g'"
    and cam: "g_pCamera g' = Some (feed (Camera_ProcessMouseMovement 1) ?cam
                (cursor_offsets (10, 20) [(13, 18), (13, 25)]))"
    by blast
  have front: "map_option Front (g_pCamera g') = Some (3, - 5.5, - 2)"
    unfolding cam by (simp add: feed_def Camera_ProcessMouseMovement_def)
  note T2 = first_mouse_event_seeds_then_offsets [OF c2, of 1 0 0 "[(503, 398)]"]
  from T2 f2(1) obtain g'' where run2: "mouse_events (Camera_ProcessMouseMovement 1) ?g2
        [(503, 398)] = Inr g''"
    and cam2: "g_pCamera g'' = Some (feed (Camera_ProcessMouseMovement 1) ?cam
                (cursor_offsets (gLastX ?g2, gLastY ?g2) [(503, 398)]))"
    by blast
  have front2: "map_option Front (g_pCamera g'') = Some (3, 1.5, - 2)"
    unfolding cam2 f2 by (simp add: feed_def Camera_ProcessMouseMovement_def)
  from first run front run2 front2 show ?thesis by blast
qed

text \<open>
  The claim as stated fails after a re-activation: the flag is only ever cleared. After
  one event at \<open>(10, 20)\<close> and a second construction of the view manager, the first
  event, at \<open>(110, 70)\<close>, is fed the offset \<open>(100, -50)\<close> from the stale last position
  and turns the look direction from \<open>(0, -0.5, -2)\<close> to \<open>(100, -50.5, -2)\<close>.
\<close>

theorem reactivation_jump_counterexample:
  "(case mouse_events (Camera_ProcessMouseMovement 1) ViewManager_constructed [(10, 20)] of
      Inl e \<Rightarrow> False
    | Inr g1 \<Rightarrow>
        map_option Front (g_pCamera (ViewManager_constructor g1)) = Some (0, - 0.5, - 2)
        \<and> (case Mouse_Position_Callback (Camera_ProcessMouseMovement 1)
                   (ViewManager_constructor g1) 110 70 of
              Inl e \<Rightarrow> False
            | Inr g2 \<Rightarrow> map_option Front (g_pCamera g2) = Some (100, - 50.5, - 2)))"
  by (simp add: ViewManager_constructed_def ViewManager_constructor_def
      Mouse_Position_Callback_def Camera_ProcessMouseMovement_def Let_def)

subsection \<open>Material lookup\<close>

lemma FindMaterial_loop_no_match:
  "\<forall>i. index \<le> i \<and> i < length ms \<longrightarrow> material_tag (ms ! i) \<noteq> t \<Longrightarrow>
   FindMaterial_loop ms t index False material = (False, material)"
proof (induction "length ms - index" arbitrary: index)
  case 0
  then show ?case by (simp add: FindMaterial_loop.simps)
next
  case (Suc k)
  then have "index < length ms" and "material_tag (ms ! index) \<noteq> t" by auto
  moreover have "FindMaterial_loop ms t (index + 1) False material = (False, material)"
    using Suc by auto
  ultimately show ?case
    by (subst FindMaterial_loop.simps) simp
qed

text \<open>On a registry that is not empty and holds no entry with the tag, the loop ends with
  the found flag unset and the output untouched, and the method answers \<open>True\<close>.\<close>

lemma FindMaterial_no_match:
  assumes "m_objectMaterials s \<noteq> []" and "t \<notin> material_tag ` set (m_objectMaterials s)"
  shows "FindMaterial s t material = (True, material)"
proof -
  have "\<forall>i. 0 \<le> i \<and> i < length (m_objectMaterials s) \<longrightarrow>
          material_tag (m_objectMaterials s ! i) \<noteq> t"
    using assms(2) by (metis image_eqI nth_mem)
  from FindMaterial_loop_no_match [OF this] assms(1) show ?thesis
    by (simp add: FindMaterial_def)
qed

text \<open>
  C1. The claim asks for the not-found answer whenever no entry matches. The code gives
  it on the empty registry only: with the single material \<open>metal\<close> registered, looking
  up \<open>wood\<close> answers \<open>True\<close> and hands back the caller's material as it was passed in.
\<close>

theorem FindMaterial_found_without_match:
  "FindMaterial ((fresh_scene shader)\<lparr>m_objectMaterials := [metal]\<rparr>) ''wood'' material
     = (True, material)"
  by (rule FindMaterial_no_match) (simp_all add: metal_def)

subsection \<open>A null shader manager\<close>

text \<open>
  C2. The claim asks that preparing and rendering with a null shader manager complete
  with no uniform pushed. \<open>SetupSceneLights\<close> and \<open>SetShaderMaterial\<close> call the shader
  manager without the null test the other setters make: preparing the scene fails at
  the first light uniform, and rendering a frame with a material defined fails at the
  first \<open>SetShaderMaterial\<close>.
\<close>

theorem PrepareScene_RenderScene_null_shader:
  "PrepareScene stbi_load (fresh_scene None) = Inl NullPointerDereference
   \<and> RenderScene material0 ((fresh_scene None)\<lparr>m_objectMaterials := [metal]\<rparr>)
       = Inl NullPointerDereference"
proof -
  have "PrepareScene stbi_load (fresh_scene None) = Inl NullPointerDereference"
    by (simp add: PrepareScene_def DefineObjectMaterials_def push_back_material_def
        SetupSceneLights_def shader_set_def fresh_scene_def Let_def)
  moreover have "RenderScene material0 ((fresh_scene None)\<lparr>m_objectMaterials := [metal]\<rparr>)
       = Inl NullPointerDereference"
    by (simp add: RenderScene_def SetTransformations_def SetShaderTexture_def
        SetTextureUVScale_def SetShaderColor_def SetShaderMaterial_def DrawMesh_def
        FindMaterial_def shader_set_def fresh_scene_def Let_def split: prod.split)
  ultimately show ?thesis by simp
qed

subsection \<open>Mesh loading\<close>

text \<open>
  C3. The claim asks that no mesh is requested twice in one \<open>PrepareScene\<close>. The plane
  mesh is requested twice: the mesh library receives eight requests for seven meshes.
\<close>

theorem PrepareScene_loads_plane_twice:
  "\<exists>s'. PrepareScene (\<lambda>f. None) (fresh_scene (Some [])) = Inr s'
     \<and> loaded (m_basicMeshes s') =
         [PlaneMesh, CylinderMesh, SphereMesh, ConeMesh, BoxMesh, TaperedCylinderMesh,
          PlaneMesh, TorusMesh]
     \<and> count_list (loaded (m_basicMeshes s')) PlaneMesh = 2"
  by (simp add: PrepareScene_def DefineObjectMaterials_def push_back_material_def
      SetupSceneLights_def shader_set_def fresh_scene_def Let_def LoadMesh_def
      LoadSceneTextures_def load_texture_def CreateGLTexture_def BindGLTextures_def
      BindGLTextures_loop.simps)


subsection \<open>The texture lookup loops\<close>

lemma FindTextureSlot_loop_found:
  "FindTextureSlot_loop arr n t slot index True = Inr slot"
  by (simp add: FindTextureSlot_loop.simps)

lemma FindTextureID_loop_found:
  "FindTextureID_loop arr n t textureID index True = Inr textureID"
  by (simp add: FindTextureID_loop.simps)

lemma FindTextureSlot_loop_miss:
  "n \<le> int (length arr) \<Longrightarrow> 0 \<le> index \<Longrightarrow>
   (\<forall>i. index \<le> i \<and> i < n \<longrightarrow> tag (arr ! nat i) \<noteq> t) \<Longrightarrow>
   FindTextureSlot_loop arr n t slot index False = Inr slot"
proof (induction "nat (n - index)" arbitrary: index)
  case 0
  then show ?case by (simp add: FindTextureSlot_loop.simps)
next
  case (Suc k)
  from Suc.hyps(2) have less: "index < n" by simp
  with Suc.prems have here: "tag (arr ! nat index) \<noteq> t" and inside: "index < int (length arr)"
    by auto
  have "FindTextureSlot_loop arr n t slot (index + 1) False = Inr slot"
    using Suc.hyps(2) Suc.prems by (intro Suc.hyps(1)) auto
  with less here inside Suc.prems(2) show ?case
    by (subst FindTextureSlot_loop.simps) simp
qed

lemma FindTextureID_loop_miss:
  "n \<le> int (length arr) \<Longrightarrow> 0 \<le> index \<Longrightarrow>
   (\<forall>i. index \<le> i \<and> i < n \<longrightarrow> tag (arr ! nat i) \<noteq> t) \<Longrightarrow>
   FindTextureID_loop arr n t textureID index False = Inr textureID"
proof (induction "nat (n - index)" arbitrary: index)
  case 0
  then show ?case by (simp add: FindTextureID_loop.simps)
next
  case (Suc k)
  from Suc.hyps(2) have less: "index < n" by simp
  with Suc.prems have here: "tag (arr ! nat index) \<noteq> t" and inside: "index < int (length arr)"
    by auto
  have "FindTextureID_loop arr n t textureID (index + 1) False = Inr textureID"
    using Suc.hyps(2) Suc.prems by (intro Suc.hyps(1)) auto
  with less here inside Suc.prems(2) show ?case
    by (subst FindTextureID_loop.simps) simp
qed

lemma FindTextureSlot_loop_hit:
  "n \<le> int (length arr) \<Longrightarrow> 0 \<le> index \<Longrightarrow> index \<le> j \<Longrightarrow> j < n \<Longrightarrow>
   tag (arr ! nat j) = t \<Longrightarrow>
   (\<forall>i. index \<le> i \<and> i < j \<longrightarrow> tag (arr ! nat i) \<noteq> t) \<Longrightarrow>
   FindTextureSlot_loop arr n t slot index False = Inr j"
proof (induction "nat (j - index)" arbitrary: index)
  case 0
  then have "index = j" by simp
  with 0 show ?case
    by (subst FindTextureSlot_loop.simps) (simp add: FindTextureSlot_loop_found)
next
  case (Suc k)
  from Suc.hyps(2) have less: "index < j" by simp
  with Suc.prems have here: "tag (arr ! nat index) \<noteq> t" and inside: "index < int (length arr)"
    and inn: "index < n"
    by auto
  have "FindTextureSlot_loop arr n t slot (index + 1) False = Inr j"
    using Suc.hyps(2) Suc.prems by (intro Suc.hyps(1)) auto
  with inn here inside Suc.prems(2) show ?case
    by (subst FindTextureSlot_loop.simps) simp
qed

lemma FindTextureID_loop_hit:
  "n \<le> int (length arr) \<Longrightarrow> 0 \<le> index \<Longrightarrow> index \<le> j \<Longrightarrow> j < n \<Longrightarrow>
   tag (arr ! nat j) = t \<Longrightarrow>
   (\<forall>i. index \<le> i \<and> i < j \<longrightarrow> tag (arr ! nat i) \<noteq> t) \<Longrightarrow>
   FindTextureID_loop arr n t textureID index False = Inr (sint (ID (arr ! nat j)))"
proof (induction "nat (j - index)" arbitrary: index)
  case 0
  then have "index = j" by simp
  with 0 show ?case
    by (subst FindTextureID_loop.simps) (simp add: FindTextureID_loop_found)
next
  case (Suc k)
  from Suc.hyps(2) have less: "index < j" by simp
  with Suc.prems have here: "tag (arr ! nat index) \<noteq> t" and inside: "index < int (length arr)"
    and inn: "index < n"
    by auto
  have "FindTextureID_loop arr n t textureID (index + 1) False = Inr (sint (ID (arr ! nat j)))"
    using Suc.hyps(2) Suc.prems by (intro Suc.hyps(1)) auto
  with inn here inside Suc.prems(2) show ?case
    by (subst FindTextureID_loop.simps) simp
qed

text \<open>Whatever a lookup returns is the sentinel it started with or comes from an entry
  in use.\<close>

lemma FindTextureSlot_loop_range:
  "n \<le> int (length arr) \<Longrightarrow> 0 \<le> index \<Longrightarrow>
   \<exists>r. FindTextureSlot_loop arr n t slot index False = Inr r
      \<and> (r = slot \<or> (index \<le> r \<and> r < n))"
proof (induction "nat (n - index)" arbitrary: index)
  case 0
  then show ?case by (simp add: FindTextureSlot_loop.simps)
next
  case (Suc k)
  from Suc.hyps(2) have less: "index < n" by simp
  with Suc.prems have inside: "index < int (length arr)" by simp
  show ?case
  proof (cases "tag (arr ! nat index) = t")
    case True
    with less inside Suc.prems(2) show ?thesis
      by (subst FindTextureSlot_loop.simps) (simp add: FindTextureSlot_loop_found)
  next
    case False
    have "\<exists>r. FindTextureSlot_loop arr n t slot (index + 1) False = Inr r
      \<and> (r = slot \<or> (index + 1 \<le> r \<and> r < n))"
      using Suc.hyps(2) Suc.prems by (intro Suc.hyps(1)) auto
    with False less inside Suc.prems(2) show ?thesis
      by (subst FindTextureSlot_loop.simps) auto
  qed
qed

lemma FindTextureID_loop_range:
  "n \<le> int (length arr) \<Longrightarrow> 0 \<le> index \<Longrightarrow>
   \<exists>r. FindTextureID_loop arr n t textureID index False = Inr r
      \<and> (r = textureID \<or> (\<exists>j. index \<le> j \<and> j < n \<and> r = sint (ID (arr ! nat j))))"
proof (induction "nat (n - index)" arbitrary: index)
  case 0
  then show ?case by (simp add: FindTextureID_loop.simps)
next
  case (Suc k)
  from Suc.hyps(2) have less: "index < n" by simp
  with Suc.prems have inside: "index < int (length arr)" by simp
  show ?case
  proof (cases "tag (arr ! nat index) = t")
    case True
    with less inside Suc.prems(2) show ?thesis
      by (subst FindTextureID_loop.simps) (auto simp: FindTextureID_loop_found)
  next
    case False
    have "\<exists>r. FindTextureID_loop arr n t textureID (index + 1) False = Inr r
      \<and> (r = textureID \<or> (\<exists>j. index + 1 \<le> j \<and> j < n \<and> r = sint (ID (arr ! nat j))))"
      using Suc.hyps(2) Suc.prems by (intro Suc.hyps(1)) auto
    then obtain r where r: "FindTextureID_loop arr n t textureID (index + 1) False = Inr r"
      and r': "r = textureID \<or> (\<exists>j. index + 1 \<le> j \<and> j < n \<and> r = sint (ID (arr ! nat j)))"
      by blast
    from r' have "r = textureID \<or> (\<exists>j. index \<le> j \<and> j < n \<and> r = sint (ID (arr ! nat j)))"
      by fastforce
    with r False less inside Suc.prems(2) show ?thesis
      by (subst FindTextureID_loop.simps) simp
  qed
qed


subsection \<open>Lookups on the registry\<close>

lemma registered_nth:
  "n \<le> int (length arr) \<Longrightarrow> 0 \<le> i \<Longrightarrow> i < n \<Longrightarrow>
   arr ! nat i \<in> set (take (nat n) arr)"
proof -
  assume a: "n \<le> int (length arr)" "0 \<le> i" "i < n"
  then have "nat i < length (take (nat n) arr)" by simp
  then have "take (nat n) arr ! nat i \<in> set (take (nat n) arr)" by (rule nth_mem)
  moreover from a have "take (nat n) arr ! nat i = arr ! nat i" by simp
  ultimately show ?thesis by simp
qed

lemma unused_tag_index:
  assumes "m_loadedTextures s \<le> int (length (m_textureIDs s))"
    and "t \<notin> tag ` set (registered s)"
  shows "\<forall>i. 0 \<le> i \<and> i < m_loadedTextures s \<longrightarrow> tag (m_textureIDs s ! nat i) \<noteq> t"
  using assms registered_nth [of "m_loadedTextures s" "m_textureIDs s"]
  by (auto simp: registered_def)

lemma FindTextureSlot_miss:
  assumes "m_loadedTextures s \<le> int (length (m_textureIDs s))"
    and "t \<notin> tag ` set (registered s)"
  shows "FindTextureSlot s t = Inr (- 1)"
  unfolding FindTextureSlot_def
  using assms(1) unused_tag_index [OF assms]
  by (intro FindTextureSlot_loop_miss) auto

lemma FindTextureID_miss:
  assumes "m_loadedTextures s \<le> int (length (m_textureIDs s))"
    and "t \<notin> tag ` set (registered s)"
  shows "FindTextureID s t = Inr (- 1)"
  unfolding FindTextureID_def
  using assms(1) unused_tag_index [OF assms]
  by (intro FindTextureID_loop_miss) auto

text \<open>
  C10. With a shader manager present and a tag that no texture in use carries,
  \<open>SetShaderTexture\<close> pushes \<open>bUseTexture = 1\<close> and then the sampler value \<open>-1\<close> for
  \<open>objectTexture\<close>: the result of the lookup is pushed as it comes. The witness is the
  call \<open>SetShaderTexture("plate")\<close> of \<open>RenderScene\<close> on a registry with two textures.
\<close>

theorem SetShaderTexture_unknown_tag:
  assumes "m_pShaderManager s = Some pushes"
    and "m_loadedTextures s \<le> int (length (m_textureIDs s))"
    and "t \<notin> tag ` set (registered s)"
  shows "SetShaderTexture t s =
           Inr (s\<lparr>m_pShaderManager :=
                   Some (pushes @ [(''bUseTexture'', IntValue 1),
                                   (''objectTexture'', Sampler2DValue (- 1))])\<rparr>)"
proof -
  let ?s1 = "s\<lparr>m_pShaderManager := Some (pushes @ [(''bUseTexture'', IntValue 1)])\<rparr>"
  have enable: "shader_set ''bUseTexture'' (IntValue 1) s = Inr ?s1"
    using assms(1) by (simp add: shader_set_def)
  have "FindTextureSlot ?s1 t = FindTextureSlot s t"
    by (simp add: FindTextureSlot_def)
  with FindTextureSlot_miss [OF assms(2,3)] have slot: "FindTextureSlot ?s1 t = Inr (- 1)"
    by simp
  show ?thesis
    using assms(1) by (simp add: SetShaderTexture_def enable slot shader_set_def)
qed

theorem SetShaderTexture_unknown_tag_witness:
  "SetShaderTexture ''plate'' two_textures =
     Inr (two_textures\<lparr>m_pShaderManager :=
            Some [(''bUseTexture'', IntValue 1), (''objectTexture'', Sampler2DValue (- 1))]\<rparr>)"
proof -
  have a: "m_pShaderManager two_textures = Some []"
    and b: "m_loadedTextures two_textures \<le> int (length (m_textureIDs two_textures))"
    and c: "''plate'' \<notin> tag ` set (registered two_textures)"
    by (simp_all add: two_textures_def registered_def)
  from SetShaderTexture_unknown_tag [OF a b c] show ?thesis by simp
qed


subsection \<open>Loading a texture\<close>

text \<open>
  C5. When the image decodes with a channel count other than 3 and 4,
  \<open>CreateGLTexture\<close> returns false and leaves the registry as it was: the array, the
  count, the entries in use, and the answer of both lookups for every tag.
\<close>

theorem CreateGLTexture_unsupported_channels:
  assumes "stbi_load filename = Some img"
    and "colorChannels img \<noteq> 3" and "colorChannels img \<noteq> 4"
  shows "\<exists>s'. CreateGLTexture stbi_load filename t s = Inr (False, s')
           \<and> m_textureIDs s' = m_textureIDs s
           \<and> m_loadedTextures s' = m_loadedTextures s
           \<and> registered s' = registered s
           \<and> (\<forall>t'. FindTextureSlot s' t' = FindTextureSlot s t')
           \<and> (\<forall>t'. FindTextureID s' t' = FindTextureID s t')"
  using assms
  by (simp add: CreateGLTexture_def Let_def registered_def FindTextureSlot_def FindTextureID_def
      split: prod.split)

theorem CreateGLTexture_unsupported_channels_witness:
  "\<exists>s'. CreateGLTexture (decodes_with 1) ''textures/gray.png'' ''gray_texture'' two_textures
            = Inr (False, s')
     \<and> m_loadedTextures s' = 2
     \<and> registered s' = registered two_textures
     \<and> FindTextureSlot s' ''gray_texture'' = Inr (- 1)"
proof -
  have img: "decodes_with 1 ''textures/gray.png''
      = Some \<lparr>width = 4, height = 4, colorChannels = 1\<rparr>"
    by (simp add: decodes_with_def)
  have n3: "colorChannels \<lparr>width = 4, height = 4, colorChannels = 1\<rparr> \<noteq> 3"
    and n4: "colorChannels \<lparr>width = 4, height = 4, colorChannels = 1\<rparr> \<noteq> 4"
    by simp_all
  have miss: "FindTextureSlot two_textures ''gray_texture'' = Inr (- 1)"
    by (rule FindTextureSlot_miss) (simp_all add: two_textures_def registered_def)
  from CreateGLTexture_unsupported_channels
         [where stbi_load = "decodes_with 1" and filename = "''textures/gray.png''"
            and t = "''gray_texture''" and s = two_textures, OF img n3 n4]
  obtain s' where "CreateGLTexture (decodes_with 1) ''textures/gray.png'' ''gray_texture''
        two_textures = Inr (False, s')"
    and "m_loadedTextures s' = m_loadedTextures two_textures"
    and "registered s' = registered two_textures"
    and "\<forall>t'. FindTextureSlot s' t' = FindTextureSlot two_textures t'"
    by blast
  with miss show ?thesis
    by (auto simp: two_textures_def)
qed


subsection \<open>Binding the textures\<close>

lemma BindGLTextures_loop_binds:
  "n \<le> int (length arr) \<Longrightarrow> 0 \<le> i \<Longrightarrow>
   \<exists>g'. BindGLTextures_loop arr n i g = Inr g' \<and> gl_lastTexture g' = gl_lastTexture g
      \<and> (\<forall>u. gl_binding2D g' u =
            (if i \<le> u \<and> u < n then ID (arr ! nat u) else gl_binding2D g u))"
proof (induction "nat (n - i)" arbitrary: i g)
  case 0
  then have "n \<le> i" by simp
  then show ?case by (auto simp: BindGLTextures_loop.simps)
next
  case (Suc k)
  from Suc.hyps(2) have less: "i < n" by simp
  with Suc.prems have inside: "i < int (length arr)" by simp
  let ?g1 = "glBindTexture (ID (arr ! nat i)) (glActiveTexture i g)"
  have "\<exists>g'. BindGLTextures_loop arr n (i + 1) ?g1 = Inr g'
      \<and> gl_lastTexture g' = gl_lastTexture ?g1
      \<and> (\<forall>u. gl_binding2D g' u =
            (if i + 1 \<le> u \<and> u < n then ID (arr ! nat u) else gl_binding2D ?g1 u))"
    using Suc.hyps(2) Suc.prems by (intro Suc.hyps(1)) auto
  then obtain g' where run: "BindGLTextures_loop arr n (i + 1) ?g1 = Inr g'"
    and last: "gl_lastTexture g' = gl_lastTexture ?g1"
    and units: "\<forall>u. gl_binding2D g' u =
            (if i + 1 \<le> u \<and> u < n then ID (arr ! nat u) else gl_binding2D ?g1 u)"
    by blast
  have step: "BindGLTextures_loop arr n i g = Inr g'"
    using less inside Suc.prems(2) run by (subst BindGLTextures_loop.simps) simp
  have "gl_lastTexture g' = gl_lastTexture g"
    using last by (simp add: glBindTexture_def glActiveTexture_def)
  moreover have "\<forall>u. gl_binding2D g' u =
            (if i \<le> u \<and> u < n then ID (arr ! nat u) else gl_binding2D g u)"
    using units less by (auto simp: glBindTexture_def glActiveTexture_def)
  ultimately show ?case using step by blast
qed

text \<open>
  C7. With \<open>n\<close> textures in use (and \<open>n\<close> within the array), \<open>BindGLTextures\<close> leaves
  texture unit \<open>i\<close> bound to the handle of the \<open>i\<close>-th registered texture, for every
  \<open>i < n\<close> counted from 0, and leaves every other unit as it was.
\<close>

theorem BindGLTextures_registration_order:
  assumes "m_loadedTextures s \<le> int (length (m_textureIDs s))"
  shows "\<exists>g'. BindGLTextures s = Inr (s\<lparr>gl := g'\<rparr>)
           \<and> (\<forall>i < length (registered s). gl_binding2D g' (int i) = ID (registered s ! i))
           \<and> (\<forall>u. u < 0 \<or> int (length (registered s)) \<le> u
                  \<longrightarrow> gl_binding2D g' u = gl_binding2D (gl s) u)"
proof -
  from BindGLTextures_loop_binds [OF assms, of 0 "gl s"]
  obtain g' where run: "BindGLTextures_loop (m_textureIDs s) (m_loadedTextures s) 0 (gl s) = Inr g'"
    and units: "\<forall>u. gl_binding2D g' u =
      (if 0 \<le> u \<and> u < m_loadedTextures s then ID (m_textureIDs s ! nat u)
       else gl_binding2D (gl s) u)"
    by auto
  have result: "BindGLTextures s = Inr (s\<lparr>gl := g'\<rparr>)"
    by (simp add: BindGLTextures_def run)
  have len: "int (length (registered s)) = max 0 (m_loadedTextures s)"
    using assms by (simp add: registered_def)
  have bound: "gl_binding2D g' (int i) = ID (registered s ! i)" if "i < length (registered s)" for i
  proof -
    from that len have "int i < m_loadedTextures s" by simp
    moreover from that have "registered s ! i = m_textureIDs s ! i"
      by (simp add: registered_def)
    ultimately show ?thesis using units by simp
  qed
  have other: "gl_binding2D g' u = gl_binding2D (gl s) u"
    if "u < 0 \<or> int (length (registered s)) \<le> u" for u
    using that len units by auto
  from result bound other show ?thesis by blast
qed

theorem BindGLTextures_registration_order_witness:
  "\<exists>g'. BindGLTextures two_textures = Inr (two_textures\<lparr>gl := g'\<rparr>)
      \<and> gl_binding2D g' 0 = 1 \<and> gl_binding2D g' 1 = 2 \<and> gl_binding2D g' 2 = 0"
proof -
  have a: "m_loadedTextures two_textures \<le> int (length (m_textureIDs two_textures))"
    by (simp add: two_textures_def)
  have r: "registered two_textures
      = [\<lparr>ID = 1, tag = ''wall_texture''\<rparr>, \<lparr>ID = 2, tag = ''can_texture''\<rparr>]"
    by (simp add: two_textures_def registered_def)
  from BindGLTextures_registration_order [OF a]
  obtain g' where run: "BindGLTextures two_textures = Inr (two_textures\<lparr>gl := g'\<rparr>)"
    and units: "\<forall>i < length (registered two_textures).
        gl_binding2D g' (int i) = ID (registered two_textures ! i)"
    and other: "\<forall>u. u < 0 \<or> int (length (registered two_textures)) \<le> u
                  \<longrightarrow> gl_binding2D g' u = gl_binding2D (gl two_textures) u"
    by blast
  from units [rule_format, of 0] units [rule_format, of 1] other [rule_format, of 2]
  have "gl_binding2D g' 0 = 1" "gl_binding2D g' 1 = 2" "gl_binding2D g' 2 = 0"
    by (simp_all add: r) (simp add: two_textures_def)
  with run show ?thesis by blast
qed


subsection \<open>Loading, then looking up\<close>

text \<open>Handles below \<open>2^31\<close> read the same signed and unsigned, and the handle after
  one of them is one more, without wrapping.\<close>

lemma sint_small_handle:
  fixes x :: GLuint
  assumes "x \<le> 0x7FFFFFFF"
  shows "sint x = uint x"
proof -
  from assms have "uint x \<le> 2147483647" by (simp add: word_le_def)
  then have hi: "uint x < 2 ^ 31" by simp
  have "(- (2 ^ 31) :: int) \<le> 0" by simp
  also have "0 \<le> uint x" by (rule uint_nonnegative)
  finally have lo: "- (2 ^ 31) \<le> uint x" .
  from lo hi have "signed_take_bit 31 (uint x) = uint x"
    by (rule signed_take_bit_int_eq_self)
  then show ?thesis by (simp add: sint_uint)
qed

lemma next_handle_uint:
  fixes x :: GLuint
  assumes "x < 0x7FFFFFFF"
  shows "uint (x + 1) = uint x + 1"
proof -
  from assms have "uint x < 2147483647" by (simp add: word_less_def)
  then have "uint x + uint (1 :: GLuint) < 2 ^ LENGTH(32)" by simp
  then have "uint (x + 1) = uint x + uint (1 :: GLuint)"
    by (simp only: uint_add_lem)
  then show ?thesis by simp
qed

lemma next_handle_small:
  fixes x :: GLuint
  assumes "x < 0x7FFFFFFF"
  shows "x + 1 \<le> 0x7FFFFFFF"
proof -
  from assms have "uint x < 2147483647" by (simp add: word_less_def)
  with next_handle_uint [OF assms] show ?thesis by (simp add: word_le_def)
qed

lemma next_handle_above:
  fixes x y :: GLuint
  assumes "x < 0x7FFFFFFF" and "y \<le> x"
  shows "y < x + 1"
proof -
  from assms(2) have "uint y \<le> uint x" by (simp add: word_le_def)
  with next_handle_uint [OF assms(1)] show ?thesis by (simp add: word_less_def)
qed

lemma take_after_store:
  "0 \<le> n \<Longrightarrow> n < int (length arr) \<Longrightarrow>
   take (nat (n + 1)) (arr[nat n := e]) = take (nat n) arr @ [e]"
proof -
  assume a: "0 \<le> n" "n < int (length arr)"
  then have k: "nat n < length (arr[nat n := e])" by simp
  from a have "nat (n + 1) = Suc (nat n)" by simp
  then show ?thesis
    using k by (simp add: take_Suc_conv_app_nth)
qed

lemma FindTextureSlot_unused_slot:
  assumes "0 \<le> m_loadedTextures s" and "m_loadedTextures s \<le> int (length (m_textureIDs s))"
  shows "FindTextureSlot s t' \<noteq> Inr (m_loadedTextures s)"
proof -
  from FindTextureSlot_loop_range [OF assms(2), of 0 t' "- 1"]
  obtain r where "FindTextureSlot s t' = Inr r"
    and "r = - 1 \<or> (0 \<le> r \<and> r < m_loadedTextures s)"
    by (auto simp: FindTextureSlot_def)
  with assms(1) show ?thesis by auto
qed

lemma FindTextureID_issued:
  assumes "m_loadedTextures s \<le> int (length (m_textureIDs s))" and "handles_issued s"
    and "gl_lastTexture (gl s) < 0x7FFFFFFF"
  shows "FindTextureID s t' \<noteq> Inr (uint (gl_lastTexture (gl s) + 1))"
proof -
  from FindTextureID_loop_range [OF assms(1), of 0 t' "- 1"]
  obtain r where r: "FindTextureID s t' = Inr r"
    and cases: "r = - 1 \<or> (\<exists>j. 0 \<le> j \<and> j < m_loadedTextures s
                   \<and> r = sint (ID (m_textureIDs s ! nat j)))"
    by (auto simp: FindTextureID_def)
  have new: "uint (gl_lastTexture (gl s) + 1) = uint (gl_lastTexture (gl s)) + 1"
    by (rule next_handle_uint [OF assms(3)])
  from cases have "r \<noteq> uint (gl_lastTexture (gl s) + 1)"
  proof
    assume "r = - 1"
    moreover have "0 \<le> uint (gl_lastTexture (gl s))" by (rule uint_nonnegative)
    ultimately show ?thesis unfolding new by linarith
  next
    assume "\<exists>j. 0 \<le> j \<and> j < m_loadedTextures s \<and> r = sint (ID (m_textureIDs s ! nat j))"
    then obtain j where j: "0 \<le> j" "j < m_loadedTextures s"
      and rj: "r = sint (ID (m_textureIDs s ! nat j))"
      by blast
    from registered_nth [OF assms(1) j] have "m_textureIDs s ! nat j \<in> set (registered s)"
      by (simp add: registered_def)
    with assms(2) have le: "ID (m_textureIDs s ! nat j) \<le> gl_lastTexture (gl s)"
      by (simp add: handles_issued_def)
    with assms(3) have "ID (m_textureIDs s ! nat j) \<le> 0x7FFFFFFF" by simp
    then have "sint (ID (m_textureIDs s ! nat j)) = uint (ID (m_textureIDs s ! nat j))"
      by (rule sint_small_handle)
    moreover from le have "uint (ID (m_textureIDs s ! nat j)) \<le> uint (gl_lastTexture (gl s))"
      by (simp add: word_le_def)
    ultimately show ?thesis using rj new by simp
  qed
  with r show ?thesis by simp
qed

text \<open>
  C6, as amended. Take an image that decodes with 3 or 4 channels, a tag that no texture
  in use carries, and a registry with a free slot whose handles were all handed out by
  the graphics API, the last handle handed out being below \<open>2^31 - 1\<close>. Then
  \<open>CreateGLTexture\<close> returns true and appends the entry; \<open>FindTextureSlot\<close> with the tag
  returns the slot of that load (the count before it) and \<open>FindTextureID\<close> the handle
  generated for it, a positive number; and before the load no lookup returned that slot
  or that handle, and no entry in use held the handle.
\<close>

theorem CreateGLTexture_then_find:
  assumes "stbi_load filename = Some img"
    and "colorChannels img = 3 \<or> colorChannels img = 4"
    and "0 \<le> m_loadedTextures s"
    and "m_loadedTextures s < int (length (m_textureIDs s))"
    and "t \<notin> tag ` set (registered s)"
    and "handles_issued s"
    and "gl_lastTexture (gl s) < 0x7FFFFFFF"
  shows "\<exists>s'. CreateGLTexture stbi_load filename t s = Inr (True, s')
           \<and> registered s' = registered s @ [\<lparr>ID = gl_lastTexture (gl s) + 1, tag = t\<rparr>]
           \<and> FindTextureSlot s' t = Inr (m_loadedTextures s)
           \<and> FindTextureID s' t = Inr (uint (gl_lastTexture (gl s) + 1))
           \<and> 0 < uint (gl_lastTexture (gl s) + 1)
           \<and> m_loadedTextures s < m_loadedTextures s'
           \<and> (\<forall>t'. FindTextureSlot s t' \<noteq> Inr (m_loadedTextures s))
           \<and> (\<forall>t'. FindTextureID s t' \<noteq> Inr (uint (gl_lastTexture (gl s) + 1)))
           \<and> gl_lastTexture (gl s) + 1 \<notin> ID ` set (registered s)
           \<and> handles_issued s'"
proof -
  let ?n = "m_loadedTextures s"
  let ?h = "gl_lastTexture (gl s) + 1"
  let ?e = "\<lparr>ID = ?h, tag = t\<rparr>"
  let ?arr = "(m_textureIDs s)[nat ?n := ?e]"
  let ?g = "glBindTexture 0 (glBindTexture ?h ((gl s)\<lparr>gl_lastTexture := ?h\<rparr>))"
  let ?s' = "s\<lparr>gl := ?g, m_textureIDs := ?arr, m_loadedTextures := ?n + 1\<rparr>"
  have le: "?n \<le> int (length (m_textureIDs s))" using assms(4) by simp
  have create: "CreateGLTexture stbi_load filename t s = Inr (True, ?s')"
    using assms(1-4) by (simp add: CreateGLTexture_def glGenTextures_def Let_def)
  have reg: "registered ?s' = registered s @ [?e]"
    using take_after_store [OF assms(3,4)] by (simp add: registered_def)
  have old: "\<forall>i. 0 \<le> i \<and> i < ?n \<longrightarrow> tag (?arr ! nat i) \<noteq> t"
    using unused_tag_index [OF le assms(5)] by auto
  have new: "?arr ! nat ?n = ?e"
    using assms(3,4) by simp
  have bounds: "?n + 1 \<le> int (length ?arr)" "(0::int) \<le> 0" "0 \<le> ?n" "?n < ?n + 1"
    using assms(3,4) by simp_all
  have match: "tag (?arr ! nat ?n) = t"
    by (simp add: new)
  have "FindTextureSlot_loop ?arr (?n + 1) t (- 1) 0 False = Inr ?n"
    by (rule FindTextureSlot_loop_hit [OF bounds match old])
  then have slot: "FindTextureSlot ?s' t = Inr ?n"
    by (simp add: FindTextureSlot_def)
  have "FindTextureID_loop ?arr (?n + 1) t (- 1) 0 False = Inr (sint (ID (?arr ! nat ?n)))"
    by (rule FindTextureID_loop_hit [OF bounds match old])
  then have "FindTextureID ?s' t = Inr (sint ?h)"
    by (simp add: FindTextureID_def new)
  moreover have "sint ?h = uint ?h"
    by (rule sint_small_handle [OF next_handle_small [OF assms(7)]])
  ultimately have handle: "FindTextureID ?s' t = Inr (uint ?h)"
    by simp
  have "0 \<le> uint (gl_lastTexture (gl s))" by (rule uint_nonnegative)
  then have positive: "0 < uint ?h"
    unfolding next_handle_uint [OF assms(7)] by linarith
  have below: "ID e < ?h" if "e \<in> set (registered s)" for e
  proof -
    from that assms(6) have "ID e \<le> gl_lastTexture (gl s)"
      by (simp add: handles_issued_def)
    then show ?thesis by (rule next_handle_above [OF assms(7)])
  qed
  have fresh: "?h \<notin> ID ` set (registered s)"
  proof
    assume "?h \<in> ID ` set (registered s)"
    then obtain e where "e \<in> set (registered s)" and "ID e = ?h" by auto
    with below [of e] show False by simp
  qed
  have last: "gl_lastTexture (gl ?s') = ?h"
    by (simp add: glBindTexture_def)
  have issued: "handles_issued ?s'"
    unfolding handles_issued_def reg last
  proof
    fix e assume "e \<in> set (registered s @ [?e])"
    then have "e \<in> set (registered s) \<or> e = ?e" by auto
    then show "ID e \<le> ?h"
    proof
      assume "e \<in> set (registered s)"
      then have "ID e < ?h" by (rule below)
      then show ?thesis by simp
    next
      assume "e = ?e"
      then show ?thesis by simp
    qed
  qed
  from create reg slot handle positive fresh issued
    FindTextureSlot_unused_slot [OF assms(3) le] FindTextureID_issued [OF le assms(6,7)]
  show ?thesis
    by (intro exI [of _ ?s']) simp
qed

theorem CreateGLTexture_then_find_witness:
  "\<exists>s'. CreateGLTexture (decodes_with 3) ''textures/apple.jpg'' ''apple_texture'' two_textures
            = Inr (True, s')
     \<and> registered s' = registered two_textures @ [\<lparr>ID = 3, tag = ''apple_texture''\<rparr>]
     \<and> FindTextureSlot s' ''apple_texture'' = Inr 2
     \<and> FindTextureID s' ''apple_texture'' = Inr 3"
proof -
  have img: "decodes_with 3 ''textures/apple.jpg''
      = Some \<lparr>width = 4, height = 4, colorChannels = 3\<rparr>"
    by (simp add: decodes_with_def)
  have ch: "colorChannels \<lparr>width = 4, height = 4, colorChannels = 3\<rparr> = 3
      \<or> colorChannels \<lparr>width = 4, height = 4, colorChannels = 3\<rparr> = 4"
    by simp
  have room: "0 \<le> m_loadedTextures two_textures"
    "m_loadedTextures two_textures < int (length (m_textureIDs two_textures))"
    by (simp_all add: two_textures_def)
  have unused: "''apple_texture'' \<notin> tag ` set (registered two_textures)"
    by (simp add: two_textures_def registered_def)
  have issued: "handles_issued two_textures"
    by (simp add: handles_issued_def two_textures_def registered_def)
  have small: "gl_lastTexture (gl two_textures) < 0x7FFFFFFF"
    by (simp add: two_textures_def)
  have vals: "m_loadedTextures two_textures = 2" "gl_lastTexture (gl two_textures) = 2"
    by (simp_all add: two_textures_def)
  from CreateGLTexture_then_find
         [where stbi_load = "decodes_with 3" and filename = "''textures/apple.jpg''"
            and t = "''apple_texture''" and s = two_textures,
          OF img ch room unused issued small]
  show ?thesis
    unfolding vals by auto
qed

text \<open>
  The claim as stated fails for a tag that is already in use: the load succeeds and
  takes slot 2 with handle 3, but both lookups still answer with slot 1 and handle 2 of
  the earlier registration.
\<close>

theorem CreateGLTexture_duplicate_tag_counterexample:
  "(case CreateGLTexture (decodes_with 4) ''textures/can.jpg'' ''can_texture'' two_textures of
      Inl e \<Rightarrow> False
    | Inr (ok, s') \<Rightarrow>
        ok \<and> m_loadedTextures two_textures = 2
           \<and> registered s' ! 2 = \<lparr>ID = 3, tag = ''can_texture''\<rparr>
           \<and> FindTextureSlot s' ''can_texture'' = Inr 1
           \<and> FindTextureID s' ''can_texture'' = Inr 2)"
  by (simp add: CreateGLTexture_def decodes_with_def two_textures_def glGenTextures_def
      glBindTexture_def registered_def Let_def no_texture_def
      FindTextureSlot_def FindTextureSlot_loop.simps
      FindTextureID_def FindTextureID_loop.simps)

text \<open>On a full registry the store falls outside the array.\<close>

lemma CreateGLTexture_full_registry:
  assumes "stbi_load filename = Some img"
    and "colorChannels img = 3 \<or> colorChannels img = 4"
    and "int (length (m_textureIDs s)) \<le> m_loadedTextures s"
  shows "CreateGLTexture stbi_load filename t s = Inl ArrayIndexOutOfBounds"
  using assms by (auto simp: CreateGLTexture_def glGenTextures_def Let_def)

text \<open>A handle of \<open>2^31\<close> or more comes back from \<open>FindTextureID\<close> as a negative
  number: the handle \<open>0xFFFFFFFF\<close> is read as \<open>-1\<close>, the value that also means
  not found.\<close>

lemma CreateGLTexture_handle_read_as_sentinel:
  "(case CreateGLTexture (decodes_with 3) ''textures/apple.jpg'' ''apple_texture''
           (two_textures\<lparr>gl := (gl two_textures)\<lparr>gl_lastTexture := 0xFFFFFFFE\<rparr>\<rparr>) of
      Inl e \<Rightarrow> False
    | Inr (ok, s') \<Rightarrow>
        ok \<and> registered s' ! 2 = \<lparr>ID = 0xFFFFFFFF, tag = ''apple_texture''\<rparr>
           \<and> FindTextureID s' ''apple_texture'' = Inr (- 1))"
  by (simp add: CreateGLTexture_def decodes_with_def two_textures_def glGenTextures_def
      glBindTexture_def registered_def Let_def no_texture_def
      FindTextureID_def FindTextureID_loop.simps)

text \<open>The condition on the handles holds on an empty registry and is kept by every
  load that returns, as long as the handles do not wrap.\<close>

lemma handles_issued_fresh_scene: "handles_issued (fresh_scene shader)"
  by (simp add: handles_issued_def registered_def fresh_scene_def)

text \<open>For every tag that is already in use, a load with that tag succeeds and both
  lookups answer after it as they did before it: with the first registration.\<close>

lemma CreateGLTexture_duplicate_tag:
  assumes "stbi_load filename = Some img"
    and "colorChannels img = 3 \<or> colorChannels img = 4"
    and "0 \<le> m_loadedTextures s"
    and "m_loadedTextures s < int (length (m_textureIDs s))"
    and "t \<in> tag ` set (registered s)"
  shows "\<exists>s'. CreateGLTexture stbi_load filename t s = Inr (True, s')
           \<and> FindTextureSlot s' t = FindTextureSlot s t
           \<and> FindTextureID s' t = FindTextureID s t
           \<and> FindTextureSlot s t \<noteq> Inr (m_loadedTextures s)"
proof -
  let ?n = "m_loadedTextures s"
  let ?h = "gl_lastTexture (gl s) + 1"
  let ?e = "\<lparr>ID = ?h, tag = t\<rparr>"
  let ?arr = "(m_textureIDs s)[nat ?n := ?e]"
  let ?g = "glBindTexture 0 (glBindTexture ?h ((gl s)\<lparr>gl_lastTexture := ?h\<rparr>))"
  let ?s' = "s\<lparr>gl := ?g, m_textureIDs := ?arr, m_loadedTextures := ?n + 1\<rparr>"
  let ?P = "\<lambda>k. k < nat ?n \<and> tag (m_textureIDs s ! k) = t"
  have le: "?n \<le> int (length (m_textureIDs s))" using assms(4) by simp
  have create: "CreateGLTexture stbi_load filename t s = Inr (True, ?s')"
    using assms(1-4) by (simp add: CreateGLTexture_def glGenTextures_def Let_def)
  from assms(5) obtain k where "k < length (registered s)" and "tag (registered s ! k) = t"
    by (auto simp: in_set_conv_nth)
  then have ex: "?P k"
    by (simp add: registered_def)
  define j where "j = (LEAST k. ?P k)"
  from ex have Pj: "?P j" unfolding j_def by (rule LeastI)
  have least: "\<not> ?P i" if "i < j" for i
    using that unfolding j_def by (rule not_less_Least)
  have jn: "int j < ?n" using Pj by linarith
  have before: "\<forall>i. 0 \<le> i \<and> i < int j \<longrightarrow> tag (m_textureIDs s ! nat i) \<noteq> t"
  proof (intro allI impI)
    fix i :: int assume i: "0 \<le> i \<and> i < int j"
    then have "nat i < j" by linarith
    from least [OF this] i jn show "tag (m_textureIDs s ! nat i) \<noteq> t" by simp
  qed
  have hit: "tag (m_textureIDs s ! nat (int j)) = t" using Pj by simp
  have same: "?arr ! nat i = m_textureIDs s ! nat i" if "0 \<le> i" "i < ?n" for i
  proof -
    from that have "nat ?n \<noteq> nat i" by linarith
    then show ?thesis by (rule nth_list_update_neq)
  qed
  have before': "\<forall>i. 0 \<le> i \<and> i < int j \<longrightarrow> tag (?arr ! nat i) \<noteq> t"
  proof (intro allI impI)
    fix i :: int assume i: "0 \<le> i \<and> i < int j"
    with jn have "0 \<le> i" "i < ?n" by linarith+
    then have "?arr ! nat i = m_textureIDs s ! nat i" by (rule same)
    with before i show "tag (?arr ! nat i) \<noteq> t" by simp
  qed
  have "?arr ! nat (int j) = m_textureIDs s ! nat (int j)"
    using jn by (intro same) simp_all
  with hit have hit': "tag (?arr ! nat (int j)) = t" by simp
  have b: "(0::int) \<le> 0" "0 \<le> int j" by simp_all
  have b': "?n + 1 \<le> int (length ?arr)" "int j < ?n + 1"
    using assms(4) jn by simp_all
  have slot: "FindTextureSlot s t = Inr (int j)"
    unfolding FindTextureSlot_def
    by (rule FindTextureSlot_loop_hit [OF le b jn hit before])
  have "FindTextureSlot_loop ?arr (?n + 1) t (- 1) 0 False = Inr (int j)"
    by (rule FindTextureSlot_loop_hit [OF b'(1) b b'(2) hit' before'])
  then have slot': "FindTextureSlot ?s' t = Inr (int j)"
    by (simp add: FindTextureSlot_def)
  have handle: "FindTextureID s t = Inr (sint (ID (m_textureIDs s ! nat (int j))))"
    unfolding FindTextureID_def
    by (rule FindTextureID_loop_hit [OF le b jn hit before])
  have "FindTextureID_loop ?arr (?n + 1) t (- 1) 0 False = Inr (sint (ID (?arr ! nat (int j))))"
    by (rule FindTextureID_loop_hit [OF b'(1) b b'(2) hit' before'])
  moreover have "?arr ! j = m_textureIDs s ! j"
    using same [of "int j"] jn by simp
  ultimately have handle': "FindTextureID ?s' t = Inr (sint (ID (m_textureIDs s ! nat (int j))))"
    by (simp add: FindTextureID_def)
  from create slot slot' handle handle' jn show ?thesis
    by (intro exI [of _ ?s']) simp
qed

lemma CreateGLTexture_keeps_handles_issued:
  assumes "handles_issued s" and "gl_lastTexture (gl s) < 0x7FFFFFFF"
    and "CreateGLTexture stbi_load filename t s = Inr (ok, s')"
  shows "handles_issued s'"
proof -
  let ?h = "gl_lastTexture (gl s) + 1"
  have below: "ID e \<le> ?h" if "e \<in> set (registered s)" for e
  proof -
    from that assms(1) have "ID e \<le> gl_lastTexture (gl s)"
      by (simp add: handles_issued_def)
    then have "ID e < ?h" by (rule next_handle_above [OF assms(2)])
    then show ?thesis by simp
  qed
  show ?thesis
  proof (cases "stbi_load filename")
    case None
    with assms show ?thesis by (simp add: CreateGLTexture_def)
  next
    case (Some img)
    show ?thesis
    proof (cases "colorChannels img = 3 \<or> colorChannels img = 4")
      case False
      with Some assms(3)
      have "s' = s\<lparr>gl := glBindTexture ?h ((gl s)\<lparr>gl_lastTexture := ?h\<rparr>)\<rparr>"
        by (auto simp: CreateGLTexture_def glGenTextures_def Let_def)
      then have "registered s' = registered s" and "gl_lastTexture (gl s') = ?h"
        by (simp_all add: registered_def glBindTexture_def)
      with below show ?thesis
        by (simp add: handles_issued_def)
    next
      case True
      show ?thesis
      proof (cases "0 \<le> m_loadedTextures s \<and> m_loadedTextures s < int (length (m_textureIDs s))")
        case False
        with Some True assms(3) show ?thesis
          by (auto simp: CreateGLTexture_def glGenTextures_def Let_def)
      next
        case room: True
        let ?e = "\<lparr>ID = ?h, tag = t\<rparr>"
        from Some True room assms(3)
        have s': "s' = s\<lparr>gl := glBindTexture 0 (glBindTexture ?h
                          ((gl s)\<lparr>gl_lastTexture := ?h\<rparr>)),
                        m_textureIDs := (m_textureIDs s)[nat (m_loadedTextures s) := ?e],
                        m_loadedTextures := m_loadedTextures s + 1\<rparr>"
          by (auto simp: CreateGLTexture_def glGenTextures_def Let_def)
        from room have "registered s' = registered s @ [?e]"
          unfolding s' using take_after_store [of "m_loadedTextures s" "m_textureIDs s" ?e]
          by (simp add: registered_def)
        moreover have "gl_lastTexture (gl s') = ?h"
          by (simp add: s' glBindTexture_def)
        ultimately show ?thesis
          using below by (auto simp: handles_issued_def)
      qed
    qed
  qed
qed


end
